theory Spec2Isabelle
  imports Main
begin

section \<open>JavaScript strings\<close>

text \<open>
  A string of the script is a sequence of UTF-16 code units. It is modelled as
  \<open>string\<close>, one \<open>char\<close> per code unit: the type holds the code units below 256
  (Basic Latin and Latin-1), so \<open>CHR 0xA0\<close> is the no-break space U+00A0 and
  \<open>CHR 0xC9\<close> is the capital E with acute U+00C9. On these strings the primitives
  below are the JavaScript ones:
  \<^item> \<open>String.prototype.trim\<close> strips white space and line terminators from both
    ends. Below 256 these are TAB, LF, VT, FF, CR, the space and the no-break space
    (the others, U+1680, U+2000 to U+200A, U+2028, U+2029, U+202F, U+205F, U+3000 and
    U+FEFF, lie beyond the type).
  \<^item> \<open>String.prototype.toLowerCase\<close> maps \<open>A\<close> to \<open>Z\<close> and U+00C0 to U+00DE,
    the multiplication sign U+00D7 apart, to the code unit 32 above, and leaves every
    other code unit below 256 as it is.
\<close>

definition is_ws :: "char \<Rightarrow> bool" where
  "is_ws c =
     (c \<in> set [CHR '' '', CHR 0x09, CHR 0x0A, CHR 0x0B, CHR 0x0C, CHR 0x0D, CHR 0xA0])"

definition trim :: "string \<Rightarrow> string" where
  "trim s = rev (dropWhile is_ws (rev (dropWhile is_ws s)))"

definition upper_case :: string where
  "upper_case =
     ''ABCDEFGHIJKLMNOPQRSTUVWXYZ''
     @ [CHR 0xC0, CHR 0xC1, CHR 0xC2, CHR 0xC3, CHR 0xC4, CHR 0xC5, CHR 0xC6, CHR 0xC7,
        CHR 0xC8, CHR 0xC9, CHR 0xCA, CHR 0xCB, CHR 0xCC, CHR 0xCD, CHR 0xCE, CHR 0xCF,
        CHR 0xD0, CHR 0xD1, CHR 0xD2, CHR 0xD3, CHR 0xD4, CHR 0xD5, CHR 0xD6,
        CHR 0xD8, CHR 0xD9, CHR 0xDA, CHR 0xDB, CHR 0xDC, CHR 0xDD, CHR 0xDE]"

definition lower_case :: string where
  "lower_case =
     ''abcdefghijklmnopqrstuvwxyz''
     @ [CHR 0xE0, CHR 0xE1, CHR 0xE2, CHR 0xE3, CHR 0xE4, CHR 0xE5, CHR 0xE6, CHR 0xE7,
        CHR 0xE8, CHR 0xE9, CHR 0xEA, CHR 0xEB, CHR 0xEC, CHR 0xED, CHR 0xEE, CHR 0xEF,
        CHR 0xF0, CHR 0xF1, CHR 0xF2, CHR 0xF3, CHR 0xF4, CHR 0xF5, CHR 0xF6,
        CHR 0xF8, CHR 0xF9, CHR 0xFA, CHR 0xFB, CHR 0xFC, CHR 0xFD, CHR 0xFE]"

definition lower_char :: "char \<Rightarrow> char" where
  "lower_char c = (case map_of (zip upper_case lower_case) c of Some d \<Rightarrow> d | None \<Rightarrow> c)"

definition toLowerCase :: "string \<Rightarrow> string" where
  "toLowerCase s = map lower_char s"

text \<open>\<open>s.replace(/\+/g, " ")\<close>\<close>

definition replace_plus :: "string \<Rightarrow> string" where
  "replace_plus s = map (\<lambda>c. if c = CHR ''+'' then CHR '' '' else c) s"

definition startsWith :: "string \<Rightarrow> string \<Rightarrow> bool" where
  "startsWith s p = (take (length p) s = p)"

definition endsWith :: "string \<Rightarrow> string \<Rightarrow> bool" where
  "endsWith s p = (length p \<le> length s \<and> drop (length s - length p) s = p)"

text \<open>\<open>s.includes(t)\<close>: \<open>t\<close> occurs in \<open>s\<close> as a contiguous substring.\<close>

fun str_includes :: "string \<Rightarrow> string \<Rightarrow> bool" where
  "str_includes [] t = (t = [])"
| "str_includes (c # cs) t = (startsWith (c # cs) t \<or> str_includes cs t)"

text \<open>\<open>xs[i]\<close> of an array-like: \<open>undefined\<close> out of range.\<close>

definition nth_opt :: "'a list \<Rightarrow> nat \<Rightarrow> 'a option" where
  "nth_opt xs i = (if i < length xs then Some (xs ! i) else None)"

section \<open>Configuration\<close>

definition MAX_SEEN_MESSAGES :: nat where
  "MAX_SEEN_MESSAGES = 100"

definition HIGHLIGHT_BORDER :: string where
  "HIGHLIGHT_BORDER = ''3px solid #fb7a24''"

definition SEPARATOR_COLOR :: string where
  "SEPARATOR_COLOR = ''#fb7a24''"

definition MARKER_BORDER :: string where
  "MARKER_BORDER = ''3px solid #ffd700''"

definition MARKER_BG :: string where
  "MARKER_BG = ''rgba(255, 215, 0, 0.1)''"

text \<open>
  The pin icon, the bar of the divider text and the bell of the badge are characters
  beyond U+00FF. Each is written as the bytes of its UTF-8 form: like the character
  itself, these hold no white space and nothing \<open>toLowerCase\<close> changes.
\<close>

definition MARKER_ICON :: string where
  "MARKER_ICON = [CHR 0xF0, CHR 0x9F, CHR 0x93, CHR 0x8C]"

definition KEYWORD_HIGHLIGHT_COLOR :: string where
  "KEYWORD_HIGHLIGHT_COLOR = ''#a855f7''"

definition KEYWORD_HIGHLIGHT_BG :: string where
  "KEYWORD_HIGHLIGHT_BG = ''rgba(168, 85, 247, 0.15)''"

definition CHAT_SELECTORS :: "string list" where
  "CHAT_SELECTORS = [''chatzoneDesktop'', ''chatzoneMobile'']"

section \<open>Utility functions\<close>

text \<open>
  \<open>sanitizeUsername\<close>: the empty string is falsy and is returned as is; otherwise
  trim, drop one leading \<open>@\<close>, drop one trailing \<open>:\<close>.
\<close>

definition sanitizeUsername :: "string \<Rightarrow> string" where
  "sanitizeUsername username =
     (if username = [] then []
      else
        let clean = trim username;
            clean = (if startsWith clean ''@'' then drop 1 clean else clean);
            clean = (if endsWith clean '':'' then butlast clean else clean)
        in clean)"

definition normalizeUsername :: "string \<Rightarrow> string" where
  "normalizeUsername username = replace_plus (toLowerCase (sanitizeUsername username))"

section \<open>The page: element trees\<close>

text \<open>
  An element carries an object identity (\<open>ref\<close>), its own properties and its child
  nodes. \<open>innerText\<close> is the text as the browser renders it: layout is outside the
  script, so it is data of the element, supplied by the page. Style properties are
  kept as the list of properties that are set, each independent of the others.
\<close>

type_synonym ref = nat

record props =
  tagName :: string
  classList :: "string list"
  attributes :: "(string \<times> string) list"
  style :: "(string \<times> string) list"
  innerText :: string

datatype node = TextNode string | Element ref props "node list"

fun is_element :: "node \<Rightarrow> bool" where
  "is_element (TextNode s) = False"
| "is_element (Element i p ks) = True"

fun childNodes :: "node \<Rightarrow> node list" where
  "childNodes (TextNode s) = []"
| "childNodes (Element i p ks) = ks"

text \<open>\<open>el.children\<close>: the child nodes that are elements.\<close>

definition children :: "node \<Rightarrow> node list" where
  "children n = filter is_element (childNodes n)"

fun textContent :: "node \<Rightarrow> string" where
  "textContent (TextNode s) = s"
| "textContent (Element i p ks) = concat (map textContent ks)"

fun node_props :: "node \<Rightarrow> props option" where
  "node_props (TextNode s) = None"
| "node_props (Element i p ks) = Some p"

definition rendered :: "node \<Rightarrow> string" where
  "rendered n = (case node_props n of None \<Rightarrow> [] | Some p \<Rightarrow> innerText p)"

definition hasClass :: "string \<Rightarrow> node \<Rightarrow> bool" where
  "hasClass c n = (case node_props n of None \<Rightarrow> False | Some p \<Rightarrow> c \<in> set (classList p))"

definition getAttribute :: "string \<Rightarrow> node \<Rightarrow> string option" where
  "getAttribute a n = (case node_props n of None \<Rightarrow> None | Some p \<Rightarrow> map_of (attributes p) a)"

definition matches_tag :: "string \<Rightarrow> node \<Rightarrow> bool" where
  "matches_tag t n = (case node_props n of None \<Rightarrow> False | Some p \<Rightarrow> tagName p = t)"

section \<open>Fingerprints\<close>

text \<open>
  The two fields \<open>getMessageFingerprint\<close> extracts:
  \<open>children[0]?.textContent || ""\<close> and
  \<open>children[5]?.textContent || children[5]?.innerText || ""\<close>.
\<close>

definition message_timestamp :: "node \<Rightarrow> string" where
  "message_timestamp messageElement =
     (case nth_opt (children messageElement) 0 of None \<Rightarrow> [] | Some c \<Rightarrow> textContent c)"

definition message_text :: "node \<Rightarrow> string" where
  "message_text messageElement =
     (case nth_opt (children messageElement) 5 of
        None \<Rightarrow> []
      | Some c \<Rightarrow> if textContent c \<noteq> [] then textContent c else rendered c)"

definition getMessageFingerprint :: "node \<Rightarrow> string" where
  "getMessageFingerprint messageElement =
     trim (message_timestamp messageElement @ '':'' @ message_text messageElement)"

section \<open>Bounded history sets\<close>

text \<open>
  A JavaScript \<open>Set\<close> of strings iterates in insertion order: it is the list of its
  members in that order. \<open>set_add\<close> is \<open>Set.prototype.add\<close>; \<open>trim_history\<close> is
  the block \<open>if (s.size > MAX) s = new Set(Array.from(s).slice(-MAX))\<close>;
  \<open>remember\<close> is the two in sequence, as both matchers run them.
\<close>

definition set_add :: "string \<Rightarrow> string list \<Rightarrow> string list" where
  "set_add x s = (if x \<in> set s then s else s @ [x])"

definition trim_history :: "string list \<Rightarrow> string list" where
  "trim_history s =
     (if length s > MAX_SEEN_MESSAGES then drop (length s - MAX_SEEN_MESSAGES) s else s)"

definition remember :: "string \<Rightarrow> string list \<Rightarrow> string list" where
  "remember fingerprint s = trim_history (set_add fingerprint s)"

section \<open>Tree operations\<close>

text \<open>
  Every operation addresses an element by its \<open>ref\<close> and acts on the first element
  with that \<open>ref\<close> in document order. A forest is the list of the roots of all
  trees that are alive. A \<open>ref\<close> with no element in the forest stands for no
  object of the page: the handlers pass over it.
\<close>

fun find_node :: "ref \<Rightarrow> node list \<Rightarrow> node option" where
  "find_node r [] = None"
| "find_node r (TextNode s # ns) = find_node r ns"
| "find_node r (Element i p ks # ns) =
     (if i = r then Some (Element i p ks)
      else case find_node r ks of Some n \<Rightarrow> Some n | None \<Rightarrow> find_node r ns)"

text \<open>
  \<open>locate r parent prev ns\<close> walks the sibling list \<open>ns\<close> (whose parent is
  \<open>parent\<close>, and whose siblings already passed are \<open>prev\<close>, nearest first) and
  yields the parent, the preceding siblings and the element itself.
\<close>

fun locate :: "ref \<Rightarrow> ref option \<Rightarrow> node list \<Rightarrow> node list \<Rightarrow> (ref option \<times> node list \<times> node) option" where
  "locate r parent prev [] = None"
| "locate r parent prev (TextNode s # ns) = locate r parent (TextNode s # prev) ns"
| "locate r parent prev (Element i p ks # ns) =
     (if i = r then Some (parent, prev, Element i p ks)
      else case locate r (Some i) [] ks of
             Some found \<Rightarrow> Some found
           | None \<Rightarrow> locate r parent (Element i p ks # prev) ns)"

text \<open>A root of the forest has no parent element and no sibling.\<close>

definition parentElement :: "ref \<Rightarrow> node list \<Rightarrow> ref option" where
  "parentElement r forest =
     (case locate r None [] forest of None \<Rightarrow> None | Some (parent, prev, n) \<Rightarrow> parent)"

definition previousElementSibling :: "ref \<Rightarrow> node list \<Rightarrow> node option" where
  "previousElementSibling r forest =
     (case locate r None [] forest of
        None \<Rightarrow> None
      | Some (parent, prev, n) \<Rightarrow>
          (case parent of None \<Rightarrow> None | Some q \<Rightarrow> List.find is_element prev))"

fun modify_first :: "ref \<Rightarrow> (node \<Rightarrow> node) \<Rightarrow> node list \<Rightarrow> node list option" where
  "modify_first r f [] = None"
| "modify_first r f (TextNode s # ns) = map_option ((#) (TextNode s)) (modify_first r f ns)"
| "modify_first r f (Element i p ks # ns) =
     (if i = r then Some (f (Element i p ks) # ns)
      else case modify_first r f ks of
             Some ks' \<Rightarrow> Some (Element i p ks' # ns)
           | None \<Rightarrow> map_option ((#) (Element i p ks)) (modify_first r f ns))"

definition modify :: "ref \<Rightarrow> (node \<Rightarrow> node) \<Rightarrow> node list \<Rightarrow> node list" where
  "modify r f forest = (case modify_first r f forest of None \<Rightarrow> forest | Some forest' \<Rightarrow> forest')"

text \<open>\<open>parent.insertBefore(new, r)\<close>, with \<open>parent\<close> the parent of \<open>r\<close>.\<close>

fun insert_first :: "node \<Rightarrow> ref \<Rightarrow> node list \<Rightarrow> node list option" where
  "insert_first new r [] = None"
| "insert_first new r (TextNode s # ns) = map_option ((#) (TextNode s)) (insert_first new r ns)"
| "insert_first new r (Element i p ks # ns) =
     (if i = r then Some (new # Element i p ks # ns)
      else case insert_first new r ks of
             Some ks' \<Rightarrow> Some (Element i p ks' # ns)
           | None \<Rightarrow> map_option ((#) (Element i p ks)) (insert_first new r ns))"

definition insertBefore :: "node \<Rightarrow> ref \<Rightarrow> node list \<Rightarrow> node list" where
  "insertBefore new r forest =
     (case insert_first new r forest of None \<Rightarrow> forest | Some forest' \<Rightarrow> forest')"

text \<open>\<open>querySelectorAll\<close> over the trees \<open>ns\<close>, in document order.\<close>

fun querySelectorAll :: "(node \<Rightarrow> bool) \<Rightarrow> node list \<Rightarrow> node list" where
  "querySelectorAll sel [] = []"
| "querySelectorAll sel (TextNode s # ns) = querySelectorAll sel ns"
| "querySelectorAll sel (Element i p ks # ns) =
     (if sel (Element i p ks) then [Element i p ks] else [])
       @ querySelectorAll sel ks @ querySelectorAll sel ns"

text \<open>\<open>el.querySelector(sel)\<close>: the first match among the descendants of \<open>el\<close>.\<close>

definition querySelector :: "(node \<Rightarrow> bool) \<Rightarrow> node \<Rightarrow> node option" where
  "querySelector sel el =
     (case querySelectorAll sel (childNodes el) of [] \<Rightarrow> None | n # ns \<Rightarrow> Some n)"

text \<open>Calling \<open>remove()\<close> on every element of \<open>querySelectorAll sel\<close>.\<close>

fun remove_all :: "(node \<Rightarrow> bool) \<Rightarrow> node list \<Rightarrow> node list" where
  "remove_all sel [] = []"
| "remove_all sel (TextNode s # ns) = TextNode s # remove_all sel ns"
| "remove_all sel (Element i p ks # ns) =
     (if sel (Element i p ks) then remove_all sel ns
      else Element i p (remove_all sel ks) # remove_all sel ns)"

text \<open>\<open>document.createElement\<close> yields an object distinct from every node alive.\<close>

fun max_ref :: "node list \<Rightarrow> ref" where
  "max_ref [] = 0"
| "max_ref (TextNode s # ns) = max_ref ns"
| "max_ref (Element i p ks # ns) = max i (max (max_ref ks) (max_ref ns))"

definition new_ref :: "node list \<Rightarrow> ref" where
  "new_ref forest = Suc (max_ref forest)"

subsection \<open>Changes to one element\<close>

fun on_props :: "(props \<Rightarrow> props) \<Rightarrow> node \<Rightarrow> node" where
  "on_props f (TextNode s) = TextNode s"
| "on_props f (Element i p ks) = Element i (f p) ks"

fun appendChild :: "node \<Rightarrow> node \<Rightarrow> node" where
  "appendChild child (TextNode s) = TextNode s"
| "appendChild child (Element i p ks) = Element i p (ks @ [child])"

definition classList_add :: "string \<Rightarrow> props \<Rightarrow> props" where
  "classList_add c p = p\<lparr>classList := (if c \<in> set (classList p) then classList p else classList p @ [c])\<rparr>"

fun assign :: "string \<Rightarrow> string \<Rightarrow> (string \<times> string) list \<Rightarrow> (string \<times> string) list" where
  "assign k v [] = [(k, v)]"
| "assign k v ((k', v') # kvs) = (if k' = k then (k, v) # kvs else (k', v') # assign k v kvs)"

text \<open>\<open>el.style.k = v\<close>\<close>

definition style_set :: "string \<Rightarrow> string \<Rightarrow> props \<Rightarrow> props" where
  "style_set k v p = p\<lparr>style := assign k v (style p)\<rparr>"

text \<open>Apply \<open>f\<close> to \<open>el.children[k]\<close>, where \<open>ns\<close> are the child nodes of \<open>el\<close>.\<close>

fun on_nth_element :: "nat \<Rightarrow> (node \<Rightarrow> node) \<Rightarrow> node list \<Rightarrow> node list" where
  "on_nth_element k f [] = []"
| "on_nth_element k f (TextNode s # ns) = TextNode s # on_nth_element k f ns"
| "on_nth_element 0 f (Element i p ks # ns) = f (Element i p ks) # ns"
| "on_nth_element (Suc k) f (Element i p ks # ns) = Element i p ks # on_nth_element k f ns"

fun on_child :: "nat \<Rightarrow> (node \<Rightarrow> node) \<Rightarrow> node \<Rightarrow> node" where
  "on_child k f (TextNode s) = TextNode s"
| "on_child k f (Element i p ks) = Element i p (on_nth_element k f ks)"

text \<open>Apply \<open>f\<close> to the child node of \<open>el\<close> that is the object \<open>r\<close>.\<close>

fun on_child_ref :: "ref \<Rightarrow> (node \<Rightarrow> node) \<Rightarrow> node \<Rightarrow> node" where
  "on_child_ref r f (TextNode s) = TextNode s"
| "on_child_ref r f (Element i p ks) =
     Element i p (map (\<lambda>k. case k of TextNode s \<Rightarrow> k | Element j q js \<Rightarrow> if j = r then f k else k) ks)"

section \<open>State of the script and of its environment\<close>

text \<open>
  The fields up to \<open>features_keywords\<close> are the script's global \<open>state\<close> object
  (\<open>state.features.mentions\<close> is \<open>features_mentions\<close>, and so on;
  \<open>state.keywords\<close> is \<open>state_keywords\<close>). The others are the environment the
  script acts on:
  \<^item> \<open>dom\<close>: the forest of all node trees alive; its first \<open>docCount\<close> roots are
    the child nodes of the document, the others are the roots of detached subtrees
    (nodes a mutation record still refers to after the page removed them);
  \<^item> \<open>gmNotification\<close>: whether \<open>GM_notification\<close> is defined; \<open>permission\<close>:
    \<open>Notification.permission\<close>; \<open>notifications\<close>: the notifications handed to
    either backend, oldest first;
  \<^item> \<open>errorLog\<close>: the errors written by \<open>console.error\<close>;
  \<^item> \<open>subscriptions\<close>: one entry per \<open>MutationObserver\<close> created, the
    container it observes; \<open>awaiting\<close>: the calls of \<open>startObserver\<close> suspended at
    their \<open>await\<close>;
  \<^item> \<open>storedUsername\<close>, \<open>storedKeywords\<close>: the values kept in \<open>localStorage\<close>
    (\<open>None\<close>: no entry, or one that cannot be read).
  The stored identity is a string: \<open>username\<close> is \<open>None\<close> for \<open>null\<close>. The
  notification backends are taken not to throw.
\<close>

datatype permission = Default | Granted | Denied

datatype channel = ViaGM | ViaBrowser

datatype error = TypeError | ContainerNotFound

record world =
  username :: "string option"
  observer :: "nat option"
  seenMessages :: "string list"
  lastKnownMessage :: "string option"
  markedMessages :: "string list"
  state_keywords :: "string list"
  keywordMatches :: "string list"
  features_mentions :: bool
  features_highlighting :: bool
  features_separator :: bool
  features_markers :: bool
  features_keywords :: bool
  dom :: "node list"
  docCount :: nat
  gmNotification :: bool
  permission :: permission
  notifications :: "(channel \<times> string \<times> string) list"
  errorLog :: "error list"
  subscriptions :: "ref option list"
  awaiting :: nat
  storedUsername :: "string option"
  storedKeywords :: "string list option"

text \<open>A call either returns, or throws with the state as the throw leaves it.\<close>

datatype outcome = Done world | Thrown error world

definition document :: "world \<Rightarrow> node list" where
  "document w = take (docCount w) (dom w)"

definition showNotification :: "string \<Rightarrow> string \<Rightarrow> world \<Rightarrow> world" where
  "showNotification title message w =
     (if gmNotification w then w\<lparr>notifications := notifications w @ [(ViaGM, title, message)]\<rparr>
      else if permission w = Granted
        then w\<lparr>notifications := notifications w @ [(ViaBrowser, title, message)]\<rparr>
      else w)"

text \<open>\<open>msg.children[2]?.textContent || "Someone"\<close>\<close>

definition message_author :: "node \<Rightarrow> string" where
  "message_author msg =
     (case nth_opt (children msg) 2 of
        None \<Rightarrow> ''Someone''
      | Some c \<Rightarrow> if textContent c \<noteq> [] then textContent c else ''Someone'')"

section \<open>Keyword matching\<close>

text \<open>
  \<open>extractItems\<close>: for each child \<open>a\<close> element whose first child element is an
  \<open>img\<close>, the \<open>alt\<close> of that image (the empty string when the attribute is absent).
\<close>

definition alt :: "node \<Rightarrow> string" where
  "alt n = (case getAttribute ''alt'' n of None \<Rightarrow> [] | Some a \<Rightarrow> a)"

definition extractItems :: "node \<Rightarrow> string list" where
  "extractItems textContainer =
     concat (map (\<lambda>element.
        if matches_tag ''a'' element then
          (case children element of
             [] \<Rightarrow> []
           | first # others \<Rightarrow> if matches_tag ''img'' first then [alt first] else [])
        else []) (children textContainer))"

text \<open>The nested loops of \<open>matchesKeywords\<close>: items outside, keywords inside.\<close>

fun first_match :: "string list \<Rightarrow> string list \<Rightarrow> string option" where
  "first_match ks [] = None"
| "first_match ks (item # items) =
     (case List.find (\<lambda>keyword. str_includes (toLowerCase item) keyword) ks of
        Some keyword \<Rightarrow> Some keyword
      | None \<Rightarrow> first_match ks items)"

definition matchesKeywords :: "string list \<Rightarrow> node \<Rightarrow> string option" where
  "matchesKeywords ks textContainer =
     (if ks = [] then None else first_match ks (extractItems textContainer))"

section \<open>Feature: mention watcher\<close>

text \<open>The body of the loop of \<open>checkForMentions\<close>, for the message \<open>r\<close>.\<close>

definition mention_step :: "string \<Rightarrow> ref \<Rightarrow> world \<Rightarrow> world" where
  "mention_step uname r w =
     (case find_node r (dom w) of
        None \<Rightarrow> w
      | Some msg \<Rightarrow>
          (case nth_opt (children msg) 5 of
             None \<Rightarrow> w
           | Some textContainer \<Rightarrow>
               let txt = (if rendered textContainer \<noteq> [] then rendered textContainer
                          else textContent textContainer)
               in if txt = [] then w
                  else if \<not> str_includes (toLowerCase txt) uname then w
                  else
                    let fingerprint = getMessageFingerprint msg
                    in if fingerprint \<in> set (seenMessages w) then w
                       else
                         let w1 = w\<lparr>seenMessages := remember fingerprint (seenMessages w)\<rparr>;
                             author = message_author msg
                         in showNotification ''You were mentioned!''
                              (author @ '': '' @ take 100 txt) w1))"

definition checkForMentions :: "ref list \<Rightarrow> world \<Rightarrow> world" where
  "checkForMentions messages w =
     (if \<not> features_mentions w then w
      else case username w of
             None \<Rightarrow> w
           | Some u \<Rightarrow> if u = [] then w else fold (mention_step (toLowerCase u)) messages w)"

section \<open>Feature: message highlighter\<close>

text \<open>The selector \<open>a[href^="profile.php?user_name="]\<close>.\<close>

definition profile_link :: "node \<Rightarrow> bool" where
  "profile_link n =
     (matches_tag ''a'' n \<and>
      (case getAttribute ''href'' n of
         None \<Rightarrow> False
       | Some h \<Rightarrow> startsWith h ''profile.php?user_name=''))"

definition is_line_terminator :: "char \<Rightarrow> bool" where
  "is_line_terminator c = (c = CHR 0x0A \<or> c = CHR 0x0D)"

text \<open>
  \<open>href.match(/user_name=(.+)$/)\<close>: the leftmost \<open>user_name=\<close> that is followed, up
  to the end of the string, by one or more characters none of which is a line
  terminator (LF and CR, below 256); the result is that rest (the group).
\<close>

fun match_user_name :: "string \<Rightarrow> string option" where
  "match_user_name [] = None"
| "match_user_name (c # cs) =
     (let rest = drop 10 (c # cs)
      in if startsWith (c # cs) ''user_name='' \<and> rest \<noteq> [] \<and> \<not> list_ex is_line_terminator rest
         then Some rest
         else match_user_name cs)"

definition applyHighlightStyle :: "node \<Rightarrow> node" where
  "applyHighlightStyle msg =
     on_props (style_set ''padding'' ''2px'' \<circ> style_set ''border-radius'' ''6px''
               \<circ> style_set ''border'' HIGHLIGHT_BORDER) msg"

definition highlight_step :: "string \<Rightarrow> ref \<Rightarrow> world \<Rightarrow> world" where
  "highlight_step normalizedUsername r w =
     (case find_node r (dom w) of
        None \<Rightarrow> w
      | Some msg \<Rightarrow>
          (case querySelector profile_link msg of
             None \<Rightarrow> w
           | Some profileLink \<Rightarrow>
               (case getAttribute ''href'' profileLink of
                  None \<Rightarrow> w
                | Some href \<Rightarrow>
                    (case match_user_name href of
                       None \<Rightarrow> w
                     | Some m \<Rightarrow>
                         if normalizeUsername m = normalizedUsername
                         then w\<lparr>dom := modify r applyHighlightStyle (dom w)\<rparr>
                         else w))))"

definition highlightOwnMessages :: "ref list \<Rightarrow> world \<Rightarrow> world" where
  "highlightOwnMessages messages w =
     (if \<not> features_highlighting w then w
      else case username w of
             None \<Rightarrow> w
           | Some u \<Rightarrow> if u = [] then w else fold (highlight_step (normalizeUsername u)) messages w)"

section \<open>Feature: session separator\<close>

text \<open>
  A mutation record lists the nodes added and the nodes removed. A node of a record
  is an element (an object of the forest) or some other node (text, comment).
\<close>

datatype noderef = ElementRef ref | OtherNode

record mutation =
  addedNodes :: "noderef list"
  removedNodes :: "noderef list"

text \<open>The horizontal bar U+2500.\<close>

definition BAR :: string where
  "BAR = [CHR 0xE2, CHR 0x94, CHR 0x80]"

definition SEPARATOR_TEXT :: string where
  "SEPARATOR_TEXT = BAR @ BAR @ BAR @ '' New Messages '' @ BAR @ BAR @ BAR"

definition createSeparator :: "ref \<Rightarrow> node" where
  "createSeparator i =
     Element i
       \<lparr>tagName = ''div'', classList = [''chat-separator''], attributes = [],
        style = [(''text-align'', ''center''), (''margin'', ''12px 0''), (''font-size'', ''12px''),
                 (''color'', SEPARATOR_COLOR), (''font-weight'', ''bold''), (''opacity'', ''0.8''),
                 (''padding'', ''4px 0'')],
        innerText = SEPARATOR_TEXT\<rparr>
       [TextNode SEPARATOR_TEXT]"

text \<open>
  \<open>insertSeparator\<close>: \<open>divider_before\<close> is its test
  \<open>prevElement && prevElement.classList.contains("chat-separator")\<close>;
  \<open>beforeMessage.parentElement\<close> is \<open>null\<close> for a message with no parent
  element, and the call of \<open>insertBefore\<close> on it throws.
\<close>

definition divider_before :: "ref \<Rightarrow> node list \<Rightarrow> bool" where
  "divider_before beforeMessage forest =
     (case previousElementSibling beforeMessage forest of
        None \<Rightarrow> False
      | Some prevElement \<Rightarrow> hasClass ''chat-separator'' prevElement)"

definition insertSeparator :: "ref \<Rightarrow> world \<Rightarrow> outcome" where
  "insertSeparator beforeMessage w =
     (if divider_before beforeMessage (dom w) then Done w
      else
        let separator = createSeparator (new_ref (dom w))
        in case parentElement beforeMessage (dom w) of
             None \<Rightarrow> Thrown TypeError w
           | Some parent \<Rightarrow> Done (w\<lparr>dom := insertBefore separator beforeMessage (dom w)\<rparr>))"

definition fingerprint_at :: "node list \<Rightarrow> ref \<Rightarrow> string option" where
  "fingerprint_at forest r = map_option getMessageFingerprint (find_node r forest)"

text \<open>\<open>if (messages.length > 0) state.lastKnownMessage = getMessageFingerprint(messages[0])\<close>\<close>

definition update_lastKnownMessage :: "ref list \<Rightarrow> world \<Rightarrow> world" where
  "update_lastKnownMessage messages w =
     (case messages of
        [] \<Rightarrow> w
      | first # others \<Rightarrow>
          (case fingerprint_at (dom w) first of
             None \<Rightarrow> w
           | Some fingerprint \<Rightarrow> w\<lparr>lastKnownMessage := Some fingerprint\<rparr>))"

definition chatWasCleared :: "mutation list \<Rightarrow> bool" where
  "chatWasCleared mutations = list_ex (\<lambda>mutation. removedNodes mutation \<noteq> []) mutations"

definition checkForSessionChange :: "ref list \<Rightarrow> mutation list \<Rightarrow> world \<Rightarrow> outcome" where
  "checkForSessionChange messages mutations w =
     (if \<not> features_separator w then Done w
      else if \<not> chatWasCleared mutations then Done (update_lastKnownMessage messages w)
      else
        (case lastKnownMessage w of
           None \<Rightarrow> Done (update_lastKnownMessage messages w)
         | Some lastKnown \<Rightarrow>
             if lastKnown = [] then Done (update_lastKnownMessage messages w)
             else
               (case List.find (\<lambda>msg. fingerprint_at (dom w) msg = Some lastKnown) messages of
                  None \<Rightarrow> Done (update_lastKnownMessage messages w)
                | Some msg \<Rightarrow>
                    (case insertSeparator msg w of
                       Thrown e w' \<Rightarrow> Thrown e w'
                     | Done w' \<Rightarrow> Done (update_lastKnownMessage messages w')))))"

section \<open>Feature: attention markers\<close>

definition createMarkerButton :: "ref \<Rightarrow> node" where
  "createMarkerButton i =
     Element i
       \<lparr>tagName = ''button'', classList = [''chat-marker-btn''],
        attributes = [(''title'', ''Mark for later'')],
        style = [(''position'', ''absolute''), (''right'', ''4px''), (''top'', ''4px''),
                 (''background'', ''rgba(255, 255, 255, 0.9)''), (''border'', ''1px solid #ddd''),
                 (''border-radius'', ''3px''), (''padding'', ''2px 6px''), (''cursor'', ''pointer''),
                 (''font-size'', ''14px''), (''line-height'', ''1''), (''opacity'', ''0.6''),
                 (''transition'', ''opacity 0.2s, transform 0.2s''), (''z-index'', ''10'')],
        innerText = MARKER_ICON\<rparr>
       [TextNode MARKER_ICON]"

definition applyMarkerStyle :: "node \<Rightarrow> node" where
  "applyMarkerStyle messageElement =
     on_props (style_set ''position'' ''relative'' \<circ> style_set ''padding'' ''4px''
               \<circ> style_set ''border-radius'' ''6px'' \<circ> style_set ''border'' MARKER_BORDER
               \<circ> style_set ''background-color'' MARKER_BG \<circ> classList_add ''chat-marked'')
       messageElement"

text \<open>
  The body of the loop of \<open>addMarkerButtons\<close> on the message element: the button is
  appended first, and the fingerprint is read from the message with its button.
\<close>

definition addMarkerButton :: "ref \<Rightarrow> string list \<Rightarrow> node \<Rightarrow> node" where
  "addMarkerButton fresh marked msg =
     (let msg = on_props (style_set ''position'' ''relative'') msg;
          button = createMarkerButton fresh;
          msg = appendChild button msg;
          fingerprint = getMessageFingerprint msg
      in if fingerprint \<in> set marked
         then on_child_ref fresh (on_props (style_set ''opacity'' ''1'')) (applyMarkerStyle msg)
         else msg)"

definition marker_step :: "ref \<Rightarrow> world \<Rightarrow> world" where
  "marker_step r w =
     (case find_node r (dom w) of
        None \<Rightarrow> w
      | Some msg \<Rightarrow>
          if querySelector (hasClass ''chat-marker-btn'') msg \<noteq> None then w
          else w\<lparr>dom := modify r (addMarkerButton (new_ref (dom w)) (markedMessages w)) (dom w)\<rparr>)"

definition addMarkerButtons :: "ref list \<Rightarrow> world \<Rightarrow> world" where
  "addMarkerButtons messages w =
     (if \<not> features_markers w then w else fold marker_step messages w)"

section \<open>Feature: keyword watcher\<close>

text \<open>The bell U+1F514.\<close>

definition BELL :: string where
  "BELL = [CHR 0xF0, CHR 0x9F, CHR 0x94, CHR 0x94]"

definition createBadge :: "ref \<Rightarrow> string \<Rightarrow> node" where
  "createBadge i keyword =
     Element i
       \<lparr>tagName = ''span'', classList = [''keyword-badge''], attributes = [],
        style = [(''display'', ''inline-block''), (''background'', KEYWORD_HIGHLIGHT_COLOR),
                 (''color'', ''white''), (''font-size'', ''10px''), (''padding'', ''2px 6px''),
                 (''border-radius'', ''3px''), (''margin-left'', ''8px''), (''font-weight'', ''bold'')],
        innerText = BELL @ '' '' @ keyword\<rparr>
       [TextNode (BELL @ '' '' @ keyword)]"

definition applyKeywordHighlight :: "ref \<Rightarrow> string \<Rightarrow> node \<Rightarrow> node" where
  "applyKeywordHighlight fresh keyword messageElement =
     (if hasClass ''chat-marked'' messageElement then messageElement
      else
        let messageElement =
              on_props (style_set ''padding-left'' ''8px''
                        \<circ> style_set ''background-color'' KEYWORD_HIGHLIGHT_BG
                        \<circ> style_set ''border-left'' (''4px solid '' @ KEYWORD_HIGHLIGHT_COLOR)
                        \<circ> classList_add ''chat-keyword-match'') messageElement;
            badge = createBadge fresh keyword
        in case nth_opt (children messageElement) 2 of
             None \<Rightarrow> messageElement
           | Some usernameElement \<Rightarrow> on_child 2 (appendChild badge) messageElement)"

definition keyword_alert_title :: "string \<Rightarrow> string" where
  "keyword_alert_title matchedKeyword =
     ''Keyword Alert: '' @ [CHR 0x22] @ matchedKeyword @ [CHR 0x22]"

text \<open>The body of the loop of \<open>checkForKeywords\<close>, for the message \<open>r\<close>.\<close>

definition keyword_step :: "ref \<Rightarrow> world \<Rightarrow> world" where
  "keyword_step r w =
     (case find_node r (dom w) of
        None \<Rightarrow> w
      | Some msg \<Rightarrow>
          (case nth_opt (children msg) 5 of
             None \<Rightarrow> w
           | Some textContainer \<Rightarrow>
               (case matchesKeywords (state_keywords w) textContainer of
                  None \<Rightarrow> w
                | Some matchedKeyword \<Rightarrow>
                    if matchedKeyword = [] then w
                    else
                      let fingerprint = getMessageFingerprint msg
                      in if fingerprint \<in> set (keywordMatches w) then w
                         else
                           let w1 = w\<lparr>keywordMatches := remember fingerprint (keywordMatches w)\<rparr>;
                               author = message_author msg;
                               w2 = w1\<lparr>dom := modify r
                                      (applyKeywordHighlight (new_ref (dom w1)) matchedKeyword) (dom w1)\<rparr>
                           in showNotification (keyword_alert_title matchedKeyword) author w2)))"

definition checkForKeywords :: "ref list \<Rightarrow> world \<Rightarrow> world" where
  "checkForKeywords messages w =
     (if \<not> features_keywords w \<or> state_keywords w = [] then w
      else fold keyword_step messages w)"

section \<open>Chat observer\<close>

text \<open>
  The filter of \<open>handleChatMutations\<close>: the added nodes that are elements of class
  \<open>chat-txt\<close>, in the order of the records.
\<close>

definition newMessages :: "mutation list \<Rightarrow> world \<Rightarrow> ref list" where
  "newMessages mutations w =
     concat (map (\<lambda>mutation.
       concat (map (\<lambda>node.
         case node of
           OtherNode \<Rightarrow> []
         | ElementRef r \<Rightarrow>
             (case find_node r (dom w) of
                None \<Rightarrow> []
              | Some n \<Rightarrow> if hasClass ''chat-txt'' n then [r] else []))
         (addedNodes mutation))) mutations)"

text \<open>
  The \<open>try\<close> block of \<open>handleChatMutations\<close>: the five calls in sequence. Only the
  session separator has a statement that can throw on a page as modelled here; a throw
  ends the block.
\<close>

definition processFeatures :: "ref list \<Rightarrow> mutation list \<Rightarrow> world \<Rightarrow> outcome" where
  "processFeatures messages mutations w =
     (let w = checkForMentions messages w;
          w = highlightOwnMessages messages w
      in case checkForSessionChange messages mutations w of
           Thrown e w' \<Rightarrow> Thrown e w'
         | Done w \<Rightarrow>
             (let w = addMarkerButtons messages w;
                  w = checkForKeywords messages w
              in Done w))"

definition handleChatMutations :: "mutation list \<Rightarrow> world \<Rightarrow> world" where
  "handleChatMutations mutations w =
     (let messages = newMessages mutations w
      in if messages = [] then w
         else case processFeatures messages mutations w of
                Done w' \<Rightarrow> w'
              | Thrown e w' \<Rightarrow> w'\<lparr>errorLog := errorLog w' @ [e]\<rparr>)"

text \<open>
  \<open>findChatContainer\<close>: up to \<open>maxAttempts\<close> polls, each trying the selectors
  \<open>#chatzoneDesktop\<close> and \<open>#chatzoneMobile\<close> in this order; \<open>docAt i\<close> is the
  document as poll \<open>i\<close> finds it.
\<close>

definition has_id :: "string \<Rightarrow> node \<Rightarrow> bool" where
  "has_id name n = (getAttribute ''id'' n = Some name)"

fun first_container :: "string list \<Rightarrow> node list \<Rightarrow> node option" where
  "first_container [] doc = None"
| "first_container (selector # selectors) doc =
     (case querySelectorAll (has_id selector) doc of
        container # rest \<Rightarrow> Some container
      | [] \<Rightarrow> first_container selectors doc)"

fun findChatContainer :: "nat \<Rightarrow> (nat \<Rightarrow> node list) \<Rightarrow> nat \<Rightarrow> error + node" where
  "findChatContainer 0 docAt i = Inl ContainerNotFound"
| "findChatContainer (Suc remaining) docAt i =
     (case first_container CHAT_SELECTORS (docAt i) of
        Some container \<Rightarrow> Inr container
      | None \<Rightarrow> findChatContainer remaining docAt (Suc i))"

fun node_ref :: "node \<Rightarrow> ref option" where
  "node_ref (TextNode s) = None"
| "node_ref (Element i p ks) = Some i"

text \<open>
  \<open>startObserver\<close> is asynchronous. Its call runs up to the \<open>await\<close>: it returns at
  once when \<open>state.observer\<close> is set, and is suspended otherwise. The rest runs
  later, when \<open>findChatContainer\<close> has settled with \<open>found\<close>: it creates the observer,
  stores it in \<open>state.observer\<close> and subscribes it, or logs the failure. An entry of
  \<open>subscriptions\<close> is \<open>None\<close> once its observer is disconnected.
\<close>

definition startObserver :: "world \<Rightarrow> world" where
  "startObserver w = (if observer w \<noteq> None then w else w\<lparr>awaiting := Suc (awaiting w)\<rparr>)"

definition startObserver_resume :: "error + node \<Rightarrow> world \<Rightarrow> world" where
  "startObserver_resume found w =
     (if awaiting w = 0 then w
      else
        (case found of
           Inr container \<Rightarrow>
             w\<lparr>awaiting := awaiting w - 1,
               observer := Some (length (subscriptions w)),
               subscriptions := subscriptions w @ [node_ref container]\<rparr>
         | Inl e \<Rightarrow> w\<lparr>awaiting := awaiting w - 1, errorLog := errorLog w @ [e]\<rparr>))"

definition stopObserver :: "world \<Rightarrow> world" where
  "stopObserver w =
     (case observer w of
        None \<Rightarrow> w
      | Some k \<Rightarrow> w\<lparr>subscriptions := (subscriptions w)[k := None], observer := None\<rparr>)"

definition live_subscriptions :: "world \<Rightarrow> nat" where
  "live_subscriptions w = length (filter (\<lambda>s. s \<noteq> None) (subscriptions w))"

section \<open>Feature controls\<close>

text \<open>
  The block "get username if not set" of \<open>startMentionWatcher\<close> and
  \<open>startHighlighter\<close>. \<open>input\<close> is the answer the user gives if \<open>prompt\<close> is shown
  (\<open>None\<close>: cancelled). The result is \<open>None\<close> when the feature start is abandoned.
  Writes to \<open>localStorage\<close> are taken to succeed. \<open>requestNotificationPermission\<close>
  changes nothing by itself (the user's answer arrives later, as a new value of
  \<open>permission\<close>), so \<open>startMentionWatcher\<close> has no step for it.
\<close>

definition get_username :: "string option \<Rightarrow> world \<Rightarrow> world option" where
  "get_username input w =
     (if username w \<noteq> None \<and> username w \<noteq> Some [] then Some w
      else if storedUsername w \<noteq> None \<and> storedUsername w \<noteq> Some []
        then Some (w\<lparr>username := storedUsername w\<rparr>)
      else
        (case input of
           None \<Rightarrow> None
         | Some answer \<Rightarrow>
             if answer = [] then None
             else Some (w\<lparr>username := Some (sanitizeUsername answer),
                         storedUsername := Some (sanitizeUsername answer)\<rparr>)))"

definition all_chat_messages :: "world \<Rightarrow> ref list" where
  "all_chat_messages w = List.map_filter node_ref (querySelectorAll (hasClass ''chat-txt'') (document w))"

definition startMentionWatcher :: "string option \<Rightarrow> world \<Rightarrow> world" where
  "startMentionWatcher input w =
     (if features_mentions w then w
      else case get_username input w of
             None \<Rightarrow> w
           | Some w \<Rightarrow> startObserver (w\<lparr>features_mentions := True\<rparr>))"

definition stopMentionWatcher :: "world \<Rightarrow> world" where
  "stopMentionWatcher w = w\<lparr>features_mentions := False, seenMessages := []\<rparr>"

definition startHighlighter :: "string option \<Rightarrow> world \<Rightarrow> world" where
  "startHighlighter input w =
     (if features_highlighting w then w
      else case get_username input w of
             None \<Rightarrow> w
           | Some w \<Rightarrow>
               (let w = startObserver (w\<lparr>features_highlighting := True\<rparr>)
                in highlightOwnMessages (all_chat_messages w) w))"

definition startSeparator :: "world \<Rightarrow> world" where
  "startSeparator w =
     (if features_separator w then w else startObserver (w\<lparr>features_separator := True\<rparr>))"

text \<open>
  \<open>stopSeparator\<close>: the flag is cleared and every element of class
  \<open>chat-separator\<close> of the document is removed. Nothing else is assigned.
\<close>

definition stopSeparator :: "world \<Rightarrow> world" where
  "stopSeparator w =
     (let doc = remove_all (hasClass ''chat-separator'') (document w)
      in w\<lparr>features_separator := False,
           dom := doc @ drop (docCount w) (dom w),
           docCount := length doc\<rparr>)"

definition startMarkers :: "world \<Rightarrow> world" where
  "startMarkers w =
     (if features_markers w then w
      else
        let w = startObserver (w\<lparr>features_markers := True\<rparr>)
        in addMarkerButtons (all_chat_messages w) w)"

text \<open>\<open>new Set(array)\<close>: the members in the order of their first occurrence.\<close>

definition new_Set :: "string list \<Rightarrow> string list" where
  "new_Set array = fold set_add array []"

fun split_on :: "char \<Rightarrow> string \<Rightarrow> string list" where
  "split_on sep [] = [[]]"
| "split_on sep (c # cs) =
     (if c = sep then [] # split_on sep cs
      else case split_on sep cs of
             [] \<Rightarrow> [[c]]
           | part # parts \<Rightarrow> (c # part) # parts)"

text \<open>
  \<open>input.split(",").map((k) => k.trim().toLowerCase().replace(/[()]/g, "")).filter((k) => k)\<close>
\<close>

definition parse_keywords :: "string \<Rightarrow> string list" where
  "parse_keywords input =
     filter (\<lambda>k. k \<noteq> [])
       (map (\<lambda>k. filter (\<lambda>c. c \<noteq> CHR ''('' \<and> c \<noteq> CHR '')'') (toLowerCase (trim k)))
          (split_on (CHR '','') input))"

definition loadKeywords :: "world \<Rightarrow> world" where
  "loadKeywords w =
     (case storedKeywords w of
        None \<Rightarrow> w
      | Some stored \<Rightarrow> w\<lparr>state_keywords := new_Set (map toLowerCase stored)\<rparr>)"

definition startKeywordWatcher :: "string option \<Rightarrow> world \<Rightarrow> world" where
  "startKeywordWatcher input w =
     (if features_keywords w then w
      else
        let w = loadKeywords w
        in if state_keywords w = [] then
             (case input of
                None \<Rightarrow> w
              | Some answer \<Rightarrow>
                  if answer = [] then w
                  else
                    let w = w\<lparr>state_keywords := new_Set (parse_keywords answer)\<rparr>;
                        w = w\<lparr>storedKeywords := Some (state_keywords w)\<rparr>
                    in startObserver (w\<lparr>features_keywords := True\<rparr>))
           else startObserver (w\<lparr>features_keywords := True\<rparr>))"

section \<open>The dispatcher as the specification words it\<close>

text \<open>
  The specification describes a dispatcher that wraps each handler on its own: a
  handler that throws is logged, and the handlers after it still run. This is that
  dispatcher, over the handlers above; it is compared with \<open>handleChatMutations\<close>.
\<close>

definition isolated :: "outcome \<Rightarrow> world" where
  "isolated result =
     (case result of Done w \<Rightarrow> w | Thrown e w \<Rightarrow> w\<lparr>errorLog := errorLog w @ [e]\<rparr>)"

definition dispatch_isolated :: "mutation list \<Rightarrow> world \<Rightarrow> world" where
  "dispatch_isolated mutations w =
     (let messages = newMessages mutations w
      in if messages = [] then w
         else
           let w = isolated (Done (checkForMentions messages w));
               w = isolated (Done (highlightOwnMessages messages w));
               w = isolated (checkForSessionChange messages mutations w);
               w = isolated (Done (addMarkerButtons messages w));
               w = isolated (Done (checkForKeywords messages w))
           in w)"

section \<open>Notions used in the properties\<close>

text \<open>Strings that begin, or end, with white space: \<open>trim\<close> changes exactly these.\<close>

definition starts_with_space :: "string \<Rightarrow> bool" where
  "starts_with_space s = (case s of [] \<Rightarrow> False | c # cs \<Rightarrow> is_ws c)"

definition ends_with_space :: "string \<Rightarrow> bool" where
  "ends_with_space s = starts_with_space (rev s)"

text \<open>
  What the fingerprint reads of the children of a message: the text content and the
  rendered text of each child element.
\<close>

definition child_texts :: "node \<Rightarrow> (string \<times> string) list" where
  "child_texts m = map (\<lambda>c. (textContent c, rendered c)) (children m)"

text \<open>The number of dividers in a forest.\<close>

definition count_separators :: "node list \<Rightarrow> nat" where
  "count_separators forest = length (querySelectorAll (hasClass ''chat-separator'') forest)"

text \<open>
  The situation the session separator acts on: the feature is on, the batch carries a
  removal, \<open>F\<close> is the last known fingerprint, and \<open>target\<close> is the first
  message of the batch whose fingerprint is \<open>F\<close>.
\<close>

definition session_match :: "ref list \<Rightarrow> mutation list \<Rightarrow> world \<Rightarrow> string \<Rightarrow> ref \<Rightarrow> bool" where
  "session_match messages mutations w F target =
     (features_separator w \<and> chatWasCleared mutations \<and> lastKnownMessage w = Some F
      \<and> List.find (\<lambda>msg. fingerprint_at (dom w) msg = Some F) messages = Some target)"

section \<open>Concrete pages\<close>

text \<open>
  A chat page as the host renders it, used where a property is shown at a concrete
  input: a message has six child elements (time stamp at 0, author link at 2, body
  at 5), and an item reference is a link around an image named by its \<open>alt\<close>.
\<close>

definition plain :: "string \<Rightarrow> props" where
  "plain t = \<lparr>tagName = t, classList = [], attributes = [], style = [], innerText = []\<rparr>"

definition span :: "ref \<Rightarrow> string \<Rightarrow> node" where
  "span i t = Element i ((plain ''span'')\<lparr>innerText := t\<rparr>) [TextNode t]"

definition item_link :: "ref \<Rightarrow> string \<Rightarrow> node" where
  "item_link i name =
     Element i ((plain ''a'')\<lparr>attributes := [(''href'', ''item.php'')]\<rparr>)
       [Element (i + 1) ((plain ''img'')\<lparr>attributes := [(''alt'', name)]\<rparr>) []]"

definition chat_message :: "ref \<Rightarrow> string \<Rightarrow> string \<Rightarrow> string \<Rightarrow> node list \<Rightarrow> node" where
  "chat_message i stamp user body items =
     Element i ((plain ''div'')\<lparr>classList := [''chat-txt'']\<rparr>)
       [span (i + 1) stamp,
        span (i + 2) '' '',
        Element (i + 3)
          ((plain ''a'')\<lparr>attributes := [(''href'', ''profile.php?user_name='' @ user)],
                         innerText := user\<rparr>)
          [TextNode user],
        span (i + 4) '':'',
        span (i + 5) '' '',
        Element (i + 6) ((plain ''span'')\<lparr>innerText := body\<rparr>) (TextNode body # items)]"

text \<open>
  Four messages. The first two differ in both fields and share a fingerprint; the
  first and the third differ in their author only; the fourth mentions the user
  \<open>Player One\<close> and refers to the item \<open>Dragon Egg\<close>.
\<close>

definition msgA :: node where
  "msgA = chat_message 10 ''12:30'' ''Player+One'' ''hi'' []"

definition msgB :: node where
  "msgB = chat_message 20 ''12'' ''Bob'' ''30:hi'' []"

definition msgC :: node where
  "msgC = chat_message 30 ''12:30'' ''Carol'' ''hi'' []"

definition msgK :: node where
  "msgK = chat_message 40 ''12:31'' ''Bob'' ''selling to player one '' [item_link 47 ''Dragon Egg'']"


definition chat_page :: "node list \<Rightarrow> node list" where
  "chat_page messages =
     [Element 1 (plain ''html'')
        [Element 2 ((plain ''div'')\<lparr>attributes := [(''id'', ''chatzoneDesktop'')]\<rparr>) messages]]"

text \<open>The mutation records of a refresh that removes nodes and adds the elements \<open>rs\<close>.\<close>

definition refresh :: "ref list \<Rightarrow> mutation list" where
  "refresh rs = [\<lparr>addedNodes = map ElementRef rs, removedNodes = [OtherNode]\<rparr>]"

text \<open>The state when the script has just been loaded, on the page \<open>forest\<close>.\<close>

definition loaded :: "node list \<Rightarrow> nat \<Rightarrow> world" where
  "loaded forest n =
     \<lparr>username = None, observer = None, seenMessages = [], lastKnownMessage = None,
      markedMessages = [], state_keywords = [], keywordMatches = [],
      features_mentions = False, features_highlighting = False, features_separator = False,
      features_markers = False, features_keywords = False,
      dom = forest, docCount = n, gmNotification = True, permission = Default,
      notifications = [], errorLog = [], subscriptions = [], awaiting = 0,
      storedUsername = None, storedKeywords = None\<rparr>"

text \<open>All five features running for the user \<open>Player One\<close>, watching \<open>dragon egg\<close>.\<close>

definition running :: "node list \<Rightarrow> nat \<Rightarrow> world" where
  "running forest n =
     (loaded forest n)
       \<lparr>username := Some ''Player One'', state_keywords := [''dragon egg''],
        features_mentions := True, features_highlighting := True, features_separator := True,
        features_markers := True, features_keywords := True\<rparr>"


text \<open>A page with an own message and a message that mentions the user and an item.\<close>

definition demo :: world where
  "demo = running (chat_page [msgA, msgK]) 1"

text \<open>
  The page \<open>demo\<close> after the pin manager has restored the pin of its second
  message, and that message as it then is.
\<close>

definition pinned_demo :: world where
  "pinned_demo = addMarkerButtons [10, 40] (demo\<lparr>markedMessages := [''12:31:selling to player one'']\<rparr>)"

definition pinned_msg :: node where
  "pinned_msg = addMarkerButton 50 [''12:31:selling to player one''] msgK"




text \<open>
  A page whose second message has been removed from the document while a mutation
  record still refers to it, and whose last known fingerprint is that of this message;
  a page with a divider and a last known fingerprint; a page as the script finds it
  when loaded, and the result of \<open>findChatContainer\<close> on it.
\<close>

definition detached_world :: world where
  "detached_world =
     (running (chat_page [msgA] @ [msgK]) 1)\<lparr>lastKnownMessage := Some ''12:31:selling to player one''\<rparr>"

definition divided_page :: world where
  "divided_page =
     (loaded (chat_page [msgA, createSeparator 61, msgK]) 1)
       \<lparr>features_separator := True, lastKnownMessage := Some ''12:30:hi''\<rparr>"

definition fresh_page :: world where
  "fresh_page = loaded (chat_page [msgA, msgK]) 1"

definition found_container :: "error + node" where
  "found_container = findChatContainer 20 (\<lambda>i. document fresh_page) 0"

text \<open>
  Two pages whose last known fingerprint is that of the message 40: on the first this
  message leads the page and the batch, on the second it comes after the message 10.
\<close>

definition returning_page :: world where
  "returning_page =
     (loaded (chat_page [msgK, msgA]) 1)
       \<lparr>features_separator := True, lastKnownMessage := Some ''12:31:selling to player one''\<rparr>"

definition second_page :: world where
  "second_page =
     (loaded (chat_page [msgA, msgK]) 1)
       \<lparr>features_separator := True, lastKnownMessage := Some ''12:31:selling to player one''\<rparr>"

text \<open>
  A message whose body ends with a no-break space, at the time of the first message.
\<close>

definition msgN :: node where
  "msgN = chat_message 80 ''12:30'' ''Dan'' (''hi'' @ [CHR 0xA0]) []"




text \<open>
  The page \<open>pinned_demo\<close> where \<open>GM_notification\<close> is not defined: with the
  permission of the browser left at its default, and with that permission granted.
\<close>

definition silent_pinned :: world where
  "silent_pinned = pinned_demo\<lparr>gmNotification := False\<rparr>"

definition browser_pinned :: world where
  "browser_pinned = pinned_demo\<lparr>gmNotification := False, permission := Granted\<rparr>"


section \<open>Properties of the utilities\<close>

text \<open>
  C2. Identity normalization. \<open>PlayerOne\<close> and \<open>@PlayerOne:\<close> normalize to
  \<open>playerone\<close>, but \<open>player+one\<close> normalizes to \<open>player one\<close>, with a space: it
  is not the same author as \<open>PlayerOne\<close>.
\<close>

theorem normalize_plus_differs:
  "normalizeUsername ''player+one'' \<noteq> normalizeUsername ''PlayerOne''"
  by code_simp

text \<open>
  C2, as the code has it. The normalization trims, strips one leading \<open>@\<close> and one
  trailing \<open>:\<close>, folds the case and turns every \<open>+\<close> into a space: \<open>PlayerOne\<close>
  and \<open>@PlayerOne:\<close> are one author, and \<open>player+one\<close>, \<open>Player One\<close> and
  \<open>@Player+One:\<close> are another.
\<close>

theorem normalize_examples:
  "normalizeUsername ''PlayerOne'' = ''playerone''
   \<and> normalizeUsername ''@PlayerOne:'' = ''playerone''
   \<and> normalizeUsername ''player+one'' = ''player one''
   \<and> normalizeUsername ''Player One'' = ''player one''
   \<and> normalizeUsername ''@Player+One:'' = ''player one''"
  by code_simp

subsection \<open>Fingerprints\<close>

lemma dropWhile_unchanged: "\<not> starts_with_space s \<Longrightarrow> dropWhile is_ws s = s"
  by (cases s) (auto simp: starts_with_space_def)

lemma trim_unchanged: "\<not> starts_with_space s \<Longrightarrow> \<not> ends_with_space s \<Longrightarrow> trim s = s"
  by (simp add: trim_def dropWhile_unchanged ends_with_space_def)

lemma colon_not_ws: "\<not> is_ws CHR '':''"
  by (simp add: is_ws_def)

lemma joined_starts: "\<not> starts_with_space t \<Longrightarrow> \<not> starts_with_space (t @ '':'' @ x)"
  by (cases t) (auto simp: starts_with_space_def colon_not_ws)

lemma joined_ends: "\<not> ends_with_space x \<Longrightarrow> \<not> ends_with_space (t @ '':'' @ x)"
  by (cases x rule: rev_cases) (auto simp: ends_with_space_def starts_with_space_def colon_not_ws)

lemma fingerprint_plain:
  "\<not> starts_with_space (message_timestamp m) \<Longrightarrow> \<not> ends_with_space (message_text m) \<Longrightarrow>
   getMessageFingerprint m = message_timestamp m @ '':'' @ message_text m"
  unfolding getMessageFingerprint_def
  by (rule trim_unchanged) (simp_all only: joined_starts joined_ends not_False_eq_True)

text \<open>
  C3. Equal fingerprints do not imply equal fields: the time stamp \<open>12:30\<close> with the
  body \<open>hi\<close>, and the time stamp \<open>12\<close> with the body \<open>30:hi\<close>, have the same
  fingerprint \<open>12:30:hi\<close>; and so has the time stamp \<open>12:30\<close> with the body
  \<open>hi\<close> followed by a no-break space, which \<open>trim\<close> strips.
\<close>

theorem fingerprint_collision:
  "getMessageFingerprint msgA = getMessageFingerprint msgB
   \<and> message_timestamp msgA \<noteq> message_timestamp msgB \<and> message_text msgA \<noteq> message_text msgB
   \<and> getMessageFingerprint msgN = getMessageFingerprint msgA
   \<and> message_timestamp msgN = message_timestamp msgA \<and> message_text msgN \<noteq> message_text msgA
   \<and> message_text msgN = ''hi'' @ [CHR 0xA0] \<and> getMessageFingerprint msgN = ''12:30:hi''"
  by code_simp

text \<open>
  C3, as the code has it. Messages with the same extracted time stamp and body text
  have the same fingerprint. Conversely, equal fingerprints give equal fields for
  messages whose time stamps have the same length and do not begin with white space
  and whose body texts do not end with white space, white space being what \<open>trim\<close>
  strips (\<open>is_ws\<close>: the no-break space is part of it).
\<close>

theorem fingerprint_of_fields:
  "(message_timestamp a = message_timestamp b \<and> message_text a = message_text b
      \<longrightarrow> getMessageFingerprint a = getMessageFingerprint b)
   \<and> (length (message_timestamp a) = length (message_timestamp b)
      \<and> \<not> starts_with_space (message_timestamp a) \<and> \<not> starts_with_space (message_timestamp b)
      \<and> \<not> ends_with_space (message_text a) \<and> \<not> ends_with_space (message_text b)
      \<and> getMessageFingerprint a = getMessageFingerprint b
      \<longrightarrow> message_timestamp a = message_timestamp b \<and> message_text a = message_text b)"
proof (intro conjI impI)
  assume "message_timestamp a = message_timestamp b \<and> message_text a = message_text b"
  then show "getMessageFingerprint a = getMessageFingerprint b"
    by (simp add: getMessageFingerprint_def)
next
  assume h: "length (message_timestamp a) = length (message_timestamp b)
      \<and> \<not> starts_with_space (message_timestamp a) \<and> \<not> starts_with_space (message_timestamp b)
      \<and> \<not> ends_with_space (message_text a) \<and> \<not> ends_with_space (message_text b)
      \<and> getMessageFingerprint a = getMessageFingerprint b"
  then have "getMessageFingerprint a = message_timestamp a @ '':'' @ message_text a"
    and "getMessageFingerprint b = message_timestamp b @ '':'' @ message_text b"
    by (blast intro: fingerprint_plain)+
  with h have "message_timestamp a @ '':'' @ message_text a
      = message_timestamp b @ '':'' @ message_text b"
    by metis
  moreover from h have "length (message_timestamp a) = length (message_timestamp b)" by blast
  ultimately have both:
    "message_timestamp a = message_timestamp b \<and> message_text a = message_text b"
    using append_eq_append_conv[of "message_timestamp a" "message_timestamp b"
        "'':'' @ message_text a" "'':'' @ message_text b"]
    by simp
  from both show "message_timestamp a = message_timestamp b" by simp
  from both show "message_text a = message_text b" by simp
qed

theorem fingerprint_of_fields_witness:
  "msgA \<noteq> msgC \<and> getMessageFingerprint msgA = getMessageFingerprint msgC
   \<and> message_timestamp msgA = message_timestamp msgC \<and> message_text msgA = message_text msgC
   \<and> length (message_timestamp msgA) = length (message_timestamp msgC)
   \<and> \<not> starts_with_space (message_timestamp msgA) \<and> \<not> ends_with_space (message_text msgA)
   \<and> ends_with_space (message_text msgN)"
proof -
  have f: "message_timestamp msgA = message_timestamp msgC \<and> message_text msgA = message_text msgC"
    by code_simp
  have s: "\<not> starts_with_space (message_timestamp msgA) \<and> \<not> starts_with_space (message_timestamp msgC)
      \<and> \<not> ends_with_space (message_text msgA) \<and> \<not> ends_with_space (message_text msgC)"
    by code_simp
  have d: "msgA \<noteq> msgC" by code_simp
  have n: "ends_with_space (message_text msgN)" by code_simp
  from fingerprint_of_fields[of msgA msgC] f
  have e: "getMessageFingerprint msgA = getMessageFingerprint msgC"
    by blast
  from fingerprint_of_fields[of msgA msgC] e s f show ?thesis using d n by simp
qed

subsection \<open>Bounded history sets\<close>






lemma seenMessages_showNotification [simp]:
  "seenMessages (showNotification t m w) = seenMessages w"
  by (simp add: showNotification_def)

lemma keywordMatches_showNotification [simp]:
  "keywordMatches (showNotification t m w) = keywordMatches w"
  by (simp add: showNotification_def)














section \<open>Properties of the tree operations\<close>

text \<open>
  Changing the first element of a given \<open>ref\<close> changes what a lookup of that
  \<open>ref\<close> finds, and nothing when the change is the identity on that element; a new
  sibling inserted before an element leaves the element as it is.
\<close>

lemma modify_first_None: "find_node r ns = None \<Longrightarrow> modify_first r f ns = None"
proof (induction r ns rule: find_node.induct)
  case (3 r i p ks ns)
  then show ?case by (cases "i = r"; cases "find_node r ks") simp_all
qed simp_all

lemma modify_first_same:
  "find_node r ns = Some n \<Longrightarrow> f n = n \<Longrightarrow> modify_first r f ns = Some ns"
proof (induction r ns rule: find_node.induct)
  case (3 r i p ks ns)
  show ?case
  proof (cases "i = r")
    case True
    with "3.prems" have "n = Element i p ks" by simp
    with True "3.prems" show ?thesis by simp
  next
    case False
    with 3 show ?thesis
      by (cases "find_node r ks") (simp_all add: modify_first_None)
  qed
qed simp_all

lemma modify_same: "find_node r ns = Some n \<Longrightarrow> f n = n \<Longrightarrow> modify r f ns = ns"
  by (simp add: modify_def modify_first_same)

lemma find_node_ref: "find_node r ns = Some n \<Longrightarrow> node_ref n = Some r"
proof (induction r ns rule: find_node.induct)
  case (3 r i p ks ns)
  then show ?case by (cases "i = r"; cases "find_node r ks") auto
qed simp_all

lemma find_node_modify_first:
  "find_node r ns = Some n \<Longrightarrow> node_ref (f n) = Some r \<Longrightarrow>
   \<exists>ns'. modify_first r f ns = Some ns' \<and> find_node r ns' = Some (f n)"
proof (induction r ns rule: find_node.induct)
  case (3 r i p ks ns)
  show ?case
  proof (cases "i = r")
    case True
    with "3.prems" have n: "n = Element i p ks" by simp
    from "3.prems"(2) obtain q js where "f n = Element r q js"
      by (cases "f n") auto
    with True n show ?thesis by simp
  next
    case False
    show ?thesis
    proof (cases "find_node r ks")
      case None
      with 3 False show ?thesis by (auto simp: modify_first_None)
    next
      case (Some a)
      with 3 False show ?thesis by auto
    qed
  qed
qed auto

lemma find_node_modify:
  "find_node r ns = Some n \<Longrightarrow> node_ref (f n) = Some r \<Longrightarrow>
   find_node r (modify r f ns) = Some (f n)"
  using find_node_modify_first[of r ns n f] by (auto simp: modify_def)

lemma find_node_le_max_ref: "find_node r ns = Some n \<Longrightarrow> r \<le> max_ref ns"
proof (induction r ns rule: find_node.induct)
  case (3 r i p ks ns)
  then show ?case by (cases "i = r"; cases "find_node r ks") auto
qed simp_all

lemma find_node_not_new: "find_node r ns = Some n \<Longrightarrow> r \<noteq> new_ref ns"
  using find_node_le_max_ref[of r ns n] by (auto simp: new_ref_def)

lemma find_node_insert_first:
  "insert_first new r ns = Some ns' \<Longrightarrow> find_node r [new] = None \<Longrightarrow>
   find_node r ns' = find_node r ns"
proof (induction r ns arbitrary: ns' rule: find_node.induct)
  case (1 r)
  then show ?case by simp
next
  case (2 r s ns)
  then show ?case by auto
next
  case (3 r i p ks ns)
  show ?case
  proof (cases "i = r")
    case True
    with "3.prems" have "ns' = new # Element i p ks # ns" by simp
    with True "3.prems"(2) show ?thesis by (cases new) (auto split: option.splits if_splits)
  next
    case False
    show ?thesis
    proof (cases "insert_first new r ks")
      case None
      with "3.prems" False obtain ms where ms: "insert_first new r ns = Some ms"
        and ns': "ns' = Element i p ks # ms" by auto
      show ?thesis
      proof (cases "find_node r ks")
        case None
        with 3 False ms ns' show ?thesis by simp
      next
        case (Some a)
        with False ns' show ?thesis by simp
      qed
    next
      case (Some ks')
      with "3.prems" False have ns': "ns' = Element i p ks' # ns" by simp
      from "3.IH"(1)[OF False Some "3.prems"(2)] have "find_node r ks' = find_node r ks" .
      with False ns' show ?thesis by simp
    qed
  qed
qed

lemma find_node_insertBefore:
  "find_node r [new] = None \<Longrightarrow> find_node r (insertBefore new r ns) = find_node r ns"
  by (auto simp: insertBefore_def find_node_insert_first split: option.splits)

section \<open>Annotations and fingerprints\<close>

lemma nth_opt_map: "nth_opt (map f xs) i = map_option f (nth_opt xs i)"
  by (simp add: nth_opt_def)

lemma message_timestamp_texts:
  "message_timestamp m = (case nth_opt (child_texts m) 0 of None \<Rightarrow> [] | Some tr \<Rightarrow> fst tr)"
  by (simp add: message_timestamp_def child_texts_def nth_opt_map split: option.splits)

lemma message_text_texts:
  "message_text m =
     (case nth_opt (child_texts m) 5 of
        None \<Rightarrow> []
      | Some tr \<Rightarrow> if fst tr \<noteq> [] then fst tr else snd tr)"
  by (simp add: message_text_def child_texts_def nth_opt_map split: option.splits)

lemma fingerprint_cong:
  "nth_opt (child_texts a) 0 = nth_opt (child_texts b) 0 \<Longrightarrow>
   nth_opt (child_texts a) 5 = nth_opt (child_texts b) 5 \<Longrightarrow>
   getMessageFingerprint a = getMessageFingerprint b"
  by (simp add: getMessageFingerprint_def message_timestamp_texts message_text_texts)

lemma child_texts_on_props [simp]: "child_texts (on_props f m) = child_texts m"
  by (cases m) (simp_all add: child_texts_def children_def)

lemma node_ref_on_props [simp]: "node_ref (on_props f m) = node_ref m"
  by (cases m) simp_all

lemma node_ref_appendChild [simp]: "node_ref (appendChild b m) = node_ref m"
  by (cases m) simp_all

lemma node_ref_on_child [simp]: "node_ref (on_child k f m) = node_ref m"
  by (cases m) simp_all

lemma node_ref_on_child_ref [simp]: "node_ref (on_child_ref r f m) = node_ref m"
  by (cases m) simp_all

lemma textContent_on_props [simp]: "textContent (on_props f c) = textContent c"
  by (cases c) simp_all

lemma rendered_style_set [simp]: "rendered (on_props (style_set k v) c) = rendered c"
  by (cases c) (simp_all add: rendered_def style_set_def)

lemma is_element_on_props [simp]: "is_element (on_props f c) = is_element c"
  by (cases c) simp_all

lemma child_texts_appendChild:
  "is_element b \<Longrightarrow> nth_opt (child_texts m) k \<noteq> None \<Longrightarrow>
   nth_opt (child_texts (appendChild b m)) k = nth_opt (child_texts m) k"
  by (cases m) (auto simp: child_texts_def children_def nth_opt_def nth_append split: if_splits)

lemma child_texts_on_child_ref [simp]:
  "child_texts (on_child_ref r (on_props (style_set k v)) m) = child_texts m"
proof (cases m)
  case (TextNode s)
  then show ?thesis by simp
next
  case (Element i p ks)
  have "map (\<lambda>c. (textContent c, rendered c))
          (filter is_element (map (\<lambda>k'. case k' of TextNode s \<Rightarrow> k'
             | Element j q js \<Rightarrow> if j = r then on_props (style_set k v) k' else k') ks))
        = map (\<lambda>c. (textContent c, rendered c)) (filter is_element ks)"
    by (induction ks) (auto split: node.splits simp: rendered_def style_set_def)
  with Element show ?thesis by (simp add: child_texts_def children_def)
qed

lemma filter_on_nth_element:
  "(\<And>n. is_element n \<Longrightarrow> is_element (f n)) \<Longrightarrow>
   filter is_element (on_nth_element k f ns)
     = (filter is_element ns)[k := f (filter is_element ns ! k)]"
  by (induction k f ns rule: on_nth_element.induct) auto

lemma is_element_appendChild [simp]: "is_element (appendChild b n) = is_element n"
  by (cases n) simp_all

lemma child_texts_on_child:
  assumes "k \<noteq> j"
  shows "nth_opt (child_texts (on_child j (appendChild b) m)) k = nth_opt (child_texts m) k"
proof (cases m)
  case (TextNode s)
  then show ?thesis by simp
next
  case (Element i p ks)
  have "filter is_element (on_nth_element j (appendChild b) ks)
      = (filter is_element ks)[j := appendChild b (filter is_element ks ! j)]"
    by (rule filter_on_nth_element) simp
  with Element assms show ?thesis
    by (simp add: child_texts_def children_def nth_opt_def)
qed

lemma fingerprint_applyHighlightStyle:
  "getMessageFingerprint (applyHighlightStyle m) = getMessageFingerprint m"
  by (rule fingerprint_cong) (simp_all add: applyHighlightStyle_def)

lemma fingerprint_applyMarkerStyle:
  "getMessageFingerprint (applyMarkerStyle m) = getMessageFingerprint m"
  by (rule fingerprint_cong) (simp_all add: applyMarkerStyle_def)

lemma is_element_createMarkerButton [simp]: "is_element (createMarkerButton i)"
  by (simp add: createMarkerButton_def)

lemma has_body_child_texts:
  "nth_opt (children m) 5 \<noteq> None \<Longrightarrow>
   nth_opt (child_texts m) 0 \<noteq> None \<and> nth_opt (child_texts m) 5 \<noteq> None"
  by (auto simp: child_texts_def nth_opt_def split: if_splits)

lemma fingerprint_addMarkerButton:
  assumes "nth_opt (children m) 5 \<noteq> None"
  shows "getMessageFingerprint (addMarkerButton fresh marked m) = getMessageFingerprint m"
proof -
  let ?m2 = "appendChild (createMarkerButton fresh) (on_props (style_set ''position'' ''relative'') m)"
  have m2: "nth_opt (child_texts ?m2) k = nth_opt (child_texts m) k" if "k = 0 \<or> k = 5" for k
    using that has_body_child_texts[OF assms] child_texts_appendChild[of "createMarkerButton fresh"
        "on_props (style_set ''position'' ''relative'') m" k]
    by auto
  have a: "getMessageFingerprint ?m2 = getMessageFingerprint m"
    by (rule fingerprint_cong) (simp_all add: m2)
  have b: "getMessageFingerprint
      (on_child_ref fresh (on_props (style_set ''opacity'' ''1'')) (applyMarkerStyle ?m2))
      = getMessageFingerprint ?m2"
    by (rule fingerprint_cong) (simp_all add: applyMarkerStyle_def)
  show ?thesis
    using a b by (simp add: addMarkerButton_def Let_def)
qed

lemma fingerprint_applyKeywordHighlight:
  "getMessageFingerprint (applyKeywordHighlight fresh keyword m) = getMessageFingerprint m"
  by (rule fingerprint_cong)
     (simp_all add: applyKeywordHighlight_def Let_def child_texts_on_child split: option.splits)

lemma node_ref_applyHighlightStyle [simp]: "node_ref (applyHighlightStyle m) = node_ref m"
  by (simp add: applyHighlightStyle_def)

lemma node_ref_addMarkerButton [simp]: "node_ref (addMarkerButton fresh marked m) = node_ref m"
  by (simp add: addMarkerButton_def Let_def applyMarkerStyle_def)

lemma node_ref_applyKeywordHighlight [simp]:
  "node_ref (applyKeywordHighlight fresh keyword m) = node_ref m"
  by (simp add: applyKeywordHighlight_def Let_def split: option.splits)

lemma dom_showNotification [simp]: "dom (showNotification t m w) = dom w"
  by (simp add: showNotification_def)

lemma fingerprint_at_highlight_step:
  "find_node r (dom w) = Some msg \<Longrightarrow>
   fingerprint_at (dom (highlight_step u r w)) r = Some (getMessageFingerprint msg)"
  by (auto simp: highlight_step_def fingerprint_at_def find_node_modify find_node_ref
        fingerprint_applyHighlightStyle split: option.splits)

lemma fingerprint_at_marker_step:
  "find_node r (dom w) = Some msg \<Longrightarrow> nth_opt (children msg) 5 \<noteq> None \<Longrightarrow>
   fingerprint_at (dom (marker_step r w)) r = Some (getMessageFingerprint msg)"
  by (auto simp: marker_step_def fingerprint_at_def find_node_modify find_node_ref
        fingerprint_addMarkerButton split: option.splits)

lemma fingerprint_at_keyword_step:
  "find_node r (dom w) = Some msg \<Longrightarrow>
   fingerprint_at (dom (keyword_step r w)) r = Some (getMessageFingerprint msg)"
  by (auto simp: keyword_step_def Let_def fingerprint_at_def find_node_modify find_node_ref
        fingerprint_applyKeywordHighlight split: option.splits)

lemma find_node_createSeparator:
  "r \<noteq> i \<Longrightarrow> find_node r [createSeparator i] = None"
  by (simp add: createSeparator_def)

lemma fingerprint_at_insertSeparator:
  "find_node r (dom w) = Some msg \<Longrightarrow> insertSeparator r w = Done w' \<Longrightarrow>
   fingerprint_at (dom w') r = Some (getMessageFingerprint msg)"
  by (auto simp: insertSeparator_def Let_def fingerprint_at_def find_node_insertBefore
        find_node_createSeparator find_node_not_new split: option.splits if_splits)

text \<open>
  C10. For a message with a child element at position 5, every annotation leaves the
  fingerprint as it is: appending the pin button (also when the pin styling is
  restored with it), the pin styling, the keyword styling with its badge on the child
  at position 2, the own-message styling, each also as the step of its handler on the
  page, and the insertion of a divider before the message.
\<close>

theorem annotations_keep_fingerprint:
  "find_node r (dom w) = Some msg \<and> nth_opt (children msg) 5 \<noteq> None \<longrightarrow>
     getMessageFingerprint (addMarkerButton fresh marked msg) = getMessageFingerprint msg
   \<and> getMessageFingerprint (applyMarkerStyle msg) = getMessageFingerprint msg
   \<and> getMessageFingerprint (applyKeywordHighlight fresh keyword msg) = getMessageFingerprint msg
   \<and> getMessageFingerprint (applyHighlightStyle msg) = getMessageFingerprint msg
   \<and> fingerprint_at (dom (marker_step r w)) r = Some (getMessageFingerprint msg)
   \<and> fingerprint_at (dom (keyword_step r w)) r = Some (getMessageFingerprint msg)
   \<and> fingerprint_at (dom (highlight_step u r w)) r = Some (getMessageFingerprint msg)
   \<and> (\<forall>w'. insertSeparator r w = Done w'
         \<longrightarrow> fingerprint_at (dom w') r = Some (getMessageFingerprint msg))"
proof (intro impI)
  assume h: "find_node r (dom w) = Some msg \<and> nth_opt (children msg) 5 \<noteq> None"
  then have f: "find_node r (dom w) = Some msg" and b: "nth_opt (children msg) 5 \<noteq> None"
    by simp_all
  have sep: "\<forall>w'. insertSeparator r w = Done w'
      \<longrightarrow> fingerprint_at (dom w') r = Some (getMessageFingerprint msg)"
    using fingerprint_at_insertSeparator[OF f] by blast
  show "getMessageFingerprint (addMarkerButton fresh marked msg) = getMessageFingerprint msg
   \<and> getMessageFingerprint (applyMarkerStyle msg) = getMessageFingerprint msg
   \<and> getMessageFingerprint (applyKeywordHighlight fresh keyword msg) = getMessageFingerprint msg
   \<and> getMessageFingerprint (applyHighlightStyle msg) = getMessageFingerprint msg
   \<and> fingerprint_at (dom (marker_step r w)) r = Some (getMessageFingerprint msg)
   \<and> fingerprint_at (dom (keyword_step r w)) r = Some (getMessageFingerprint msg)
   \<and> fingerprint_at (dom (highlight_step u r w)) r = Some (getMessageFingerprint msg)
   \<and> (\<forall>w'. insertSeparator r w = Done w'
         \<longrightarrow> fingerprint_at (dom w') r = Some (getMessageFingerprint msg))"
    using fingerprint_addMarkerButton[OF b] fingerprint_applyMarkerStyle
      fingerprint_applyKeywordHighlight fingerprint_applyHighlightStyle
      fingerprint_at_marker_step[OF f b] fingerprint_at_keyword_step[OF f]
      fingerprint_at_highlight_step[OF f] sep
    by simp
qed

theorem annotations_keep_fingerprint_witness:
  "find_node 40 (dom demo) = Some msgK \<and> nth_opt (children msgK) 5 \<noteq> None
   \<and> getMessageFingerprint msgK = ''12:31:selling to player one''
   \<and> dom (marker_step 40 demo) \<noteq> dom demo
   \<and> fingerprint_at (dom (marker_step 40 demo)) 40 = Some ''12:31:selling to player one''
   \<and> dom (keyword_step 40 demo) \<noteq> dom demo
   \<and> fingerprint_at (dom (keyword_step 40 demo)) 40 = Some ''12:31:selling to player one''
   \<and> dom (highlight_step ''player one'' 10 demo) \<noteq> dom demo
   \<and> (case insertSeparator 40 demo of
         Done w' \<Rightarrow> dom w' \<noteq> dom demo
                  \<and> fingerprint_at (dom w') 40 = Some ''12:31:selling to player one''
       | Thrown e w' \<Rightarrow> False)"
proof -
  have h: "find_node 40 (dom demo) = Some msgK \<and> nth_opt (children msgK) 5 \<noteq> None"
    by code_simp
  have f: "getMessageFingerprint msgK = ''12:31:selling to player one''"
    by code_simp
  have c: "dom (marker_step 40 demo) \<noteq> dom demo" "dom (keyword_step 40 demo) \<noteq> dom demo"
    "dom (highlight_step ''player one'' 10 demo) \<noteq> dom demo"
    by code_simp+
  have s: "case insertSeparator 40 demo of Done w' \<Rightarrow> dom w' \<noteq> dom demo | Thrown e w' \<Rightarrow> False"
    by code_simp
  from annotations_keep_fingerprint[of 40 demo msgK] h f c s
  show ?thesis by (auto split: outcome.splits)
qed

section \<open>Keyword matches on pinned messages\<close>

lemma keyword_step_pinned:
  assumes "find_node r (dom w) = Some msg" and "hasClass ''chat-marked'' msg"
    and "nth_opt (children msg) 5 = Some textContainer"
    and "matchesKeywords (state_keywords w) textContainer = Some keyword" and "keyword \<noteq> []"
    and "getMessageFingerprint msg \<notin> set (keywordMatches w)"
  shows "keyword_step r w =
     showNotification (keyword_alert_title keyword) (message_author msg)
       (w\<lparr>keywordMatches := remember (getMessageFingerprint msg) (keywordMatches w)\<rparr>)"
proof -
  have "modify r (applyKeywordHighlight fresh keyword) (dom w) = dom w" for fresh
    using assms(1,2) by (intro modify_same[where n = msg]) (simp_all add: applyKeywordHighlight_def)
  with assms show ?thesis
    by (simp add: keyword_step_def Let_def)
qed

lemma showNotification_fields [simp]:
  "features_keywords (showNotification t m w) = features_keywords w"
  "state_keywords (showNotification t m w) = state_keywords w"
  by (simp_all add: showNotification_def)

text \<open>
  C5. A first keyword match on a pinned message does not always emit a notification:
  where \<open>GM_notification\<close> is not defined and the permission of the browser is not
  granted, \<open>showNotification\<close> does nothing. The match is recorded, the page is
  left as it is, and no notification is emitted.
\<close>

theorem pinned_match_not_notified:
  "features_keywords silent_pinned \<and> state_keywords silent_pinned = [''dragon egg'']
   \<and> find_node 40 (dom silent_pinned) = Some pinned_msg
   \<and> hasClass ''chat-marked'' pinned_msg
   \<and> nth_opt (children pinned_msg) 5 = Some (children pinned_msg ! 5)
   \<and> matchesKeywords (state_keywords silent_pinned) (children pinned_msg ! 5) = Some ''dragon egg''
   \<and> keywordMatches silent_pinned = []
   \<and> \<not> gmNotification silent_pinned \<and> permission silent_pinned = Default
   \<and> notifications silent_pinned = []
   \<and> keywordMatches (checkForKeywords [40] silent_pinned) = [''12:31:selling to player one'']
   \<and> dom (checkForKeywords [40] silent_pinned) = dom silent_pinned
   \<and> notifications (checkForKeywords [40] silent_pinned) = []"
  by code_simp

text \<open>
  C5, as the code has it. When the keyword matcher finds a first keyword match for a
  message that carries the pin marking, the page is left as it is (the message keeps
  its pin styling and gets neither the keyword class and styling nor a badge), the
  fingerprint is recorded, and \<open>showNotification\<close> is called with the keyword and
  the author: the notification is emitted through \<open>GM_notification\<close> where that is
  defined, otherwise through the browser where its permission is granted, and
  otherwise not at all. The rest of the batch is then processed.
\<close>

theorem pinned_message_keyword_match:
  "features_keywords w \<and> state_keywords w \<noteq> [] \<and> find_node r (dom w) = Some msg
   \<and> hasClass ''chat-marked'' msg \<and> nth_opt (children msg) 5 = Some textContainer
   \<and> matchesKeywords (state_keywords w) textContainer = Some keyword \<and> keyword \<noteq> []
   \<and> getMessageFingerprint msg \<notin> set (keywordMatches w) \<longrightarrow>
     checkForKeywords [r] w =
       showNotification (keyword_alert_title keyword) (message_author msg)
         (w\<lparr>keywordMatches := remember (getMessageFingerprint msg) (keywordMatches w)\<rparr>)
   \<and> dom (checkForKeywords [r] w) = dom w
   \<and> find_node r (dom (checkForKeywords [r] w)) = Some msg
   \<and> keywordMatches (checkForKeywords [r] w)
       = remember (getMessageFingerprint msg) (keywordMatches w)
   \<and> notifications (checkForKeywords [r] w)
       = (if gmNotification w
            then notifications w @ [(ViaGM, keyword_alert_title keyword, message_author msg)]
          else if permission w = Granted
            then notifications w @ [(ViaBrowser, keyword_alert_title keyword, message_author msg)]
          else notifications w)
   \<and> checkForKeywords (r # rs) w = checkForKeywords rs (checkForKeywords [r] w)"
proof (intro impI)
  assume h: "features_keywords w \<and> state_keywords w \<noteq> [] \<and> find_node r (dom w) = Some msg
   \<and> hasClass ''chat-marked'' msg \<and> nth_opt (children msg) 5 = Some textContainer
   \<and> matchesKeywords (state_keywords w) textContainer = Some keyword \<and> keyword \<noteq> []
   \<and> getMessageFingerprint msg \<notin> set (keywordMatches w)"
  let ?w' = "showNotification (keyword_alert_title keyword) (message_author msg)
         (w\<lparr>keywordMatches := remember (getMessageFingerprint msg) (keywordMatches w)\<rparr>)"
  from h have step: "keyword_step r w = ?w'"
    using keyword_step_pinned[of r w msg textContainer keyword] by blast
  from h have one: "checkForKeywords [r] w = ?w'"
    by (simp add: checkForKeywords_def step)
  have d: "dom ?w' = dom w" by (simp add: showNotification_def)
  have k: "keywordMatches ?w' = remember (getMessageFingerprint msg) (keywordMatches w)"
    by (simp add: showNotification_def)
  have n: "notifications ?w'
      = (if gmNotification w
            then notifications w @ [(ViaGM, keyword_alert_title keyword, message_author msg)]
          else if permission w = Granted
            then notifications w @ [(ViaBrowser, keyword_alert_title keyword, message_author msg)]
          else notifications w)"
    by (simp add: showNotification_def)
  from h have rest: "checkForKeywords (r # rs) w = checkForKeywords rs ?w'"
    by (simp add: checkForKeywords_def step)
  from h have f: "find_node r (dom w) = Some msg" by blast
  show "checkForKeywords [r] w = ?w'
   \<and> dom (checkForKeywords [r] w) = dom w
   \<and> find_node r (dom (checkForKeywords [r] w)) = Some msg
   \<and> keywordMatches (checkForKeywords [r] w)
       = remember (getMessageFingerprint msg) (keywordMatches w)
   \<and> notifications (checkForKeywords [r] w)
       = (if gmNotification w
            then notifications w @ [(ViaGM, keyword_alert_title keyword, message_author msg)]
          else if permission w = Granted
            then notifications w @ [(ViaBrowser, keyword_alert_title keyword, message_author msg)]
          else notifications w)
   \<and> checkForKeywords (r # rs) w = checkForKeywords rs (checkForKeywords [r] w)"
    unfolding one using d k n rest f by (intro conjI) simp_all
qed

theorem pinned_message_keyword_match_witness:
  "features_keywords pinned_demo \<and> state_keywords pinned_demo = [''dragon egg'']
   \<and> find_node 40 (dom pinned_demo) = Some pinned_msg
   \<and> hasClass ''chat-marked'' pinned_msg
   \<and> \<not> hasClass ''chat-keyword-match'' pinned_msg
   \<and> querySelectorAll (hasClass ''keyword-badge'') [pinned_msg] = []
   \<and> keywordMatches pinned_demo = [] \<and> notifications pinned_demo = []
   \<and> dom (checkForKeywords [40] pinned_demo) = dom pinned_demo
   \<and> find_node 40 (dom (checkForKeywords [40] pinned_demo)) = Some pinned_msg
   \<and> keywordMatches (checkForKeywords [40] pinned_demo) = [''12:31:selling to player one'']
   \<and> notifications (checkForKeywords [40] pinned_demo)
       = [(ViaGM, ''Keyword Alert: '' @ [CHR 0x22] @ ''dragon egg'' @ [CHR 0x22], ''Bob'')]
   \<and> dom browser_pinned = dom pinned_demo
   \<and> \<not> gmNotification browser_pinned \<and> permission browser_pinned = Granted
   \<and> dom (checkForKeywords [40] browser_pinned) = dom browser_pinned
   \<and> keywordMatches (checkForKeywords [40] browser_pinned) = [''12:31:selling to player one'']
   \<and> notifications (checkForKeywords [40] browser_pinned)
       = [(ViaBrowser, ''Keyword Alert: '' @ [CHR 0x22] @ ''dragon egg'' @ [CHR 0x22], ''Bob'')]"
proof -
  let ?c = "children pinned_msg ! 5"
  have h: "features_keywords pinned_demo \<and> state_keywords pinned_demo \<noteq> []
      \<and> find_node 40 (dom pinned_demo) = Some pinned_msg
      \<and> hasClass ''chat-marked'' pinned_msg
      \<and> nth_opt (children pinned_msg) 5 = Some ?c
      \<and> matchesKeywords (state_keywords pinned_demo) ?c = Some ''dragon egg''
      \<and> ''dragon egg'' \<noteq> []
      \<and> getMessageFingerprint pinned_msg \<notin> set (keywordMatches pinned_demo)"
    by code_simp
  have hb: "features_keywords browser_pinned \<and> state_keywords browser_pinned \<noteq> []
      \<and> find_node 40 (dom browser_pinned) = Some pinned_msg
      \<and> hasClass ''chat-marked'' pinned_msg
      \<and> nth_opt (children pinned_msg) 5 = Some ?c
      \<and> matchesKeywords (state_keywords browser_pinned) ?c = Some ''dragon egg''
      \<and> ''dragon egg'' \<noteq> []
      \<and> getMessageFingerprint pinned_msg \<notin> set (keywordMatches browser_pinned)"
    by code_simp
  have e: "state_keywords pinned_demo = [''dragon egg'']"
    "\<not> hasClass ''chat-keyword-match'' pinned_msg"
    "querySelectorAll (hasClass ''keyword-badge'') [pinned_msg] = []"
    "keywordMatches pinned_demo = []" "notifications pinned_demo = []"
    by code_simp+
  have b: "dom browser_pinned = dom pinned_demo" "\<not> gmNotification browser_pinned"
    "permission browser_pinned = Granted"
    by code_simp+
  have v: "remember (getMessageFingerprint pinned_msg) (keywordMatches pinned_demo)
        = [''12:31:selling to player one'']"
    "(if gmNotification pinned_demo
        then notifications pinned_demo
          @ [(ViaGM, keyword_alert_title ''dragon egg'', message_author pinned_msg)]
      else if permission pinned_demo = Granted
        then notifications pinned_demo
          @ [(ViaBrowser, keyword_alert_title ''dragon egg'', message_author pinned_msg)]
      else notifications pinned_demo)
     = [(ViaGM, ''Keyword Alert: '' @ [CHR 0x22] @ ''dragon egg'' @ [CHR 0x22], ''Bob'')]"
    "remember (getMessageFingerprint pinned_msg) (keywordMatches browser_pinned)
        = [''12:31:selling to player one'']"
    "(if gmNotification browser_pinned
        then notifications browser_pinned
          @ [(ViaGM, keyword_alert_title ''dragon egg'', message_author pinned_msg)]
      else if permission browser_pinned = Granted
        then notifications browser_pinned
          @ [(ViaBrowser, keyword_alert_title ''dragon egg'', message_author pinned_msg)]
      else notifications browser_pinned)
     = [(ViaBrowser, ''Keyword Alert: '' @ [CHR 0x22] @ ''dragon egg'' @ [CHR 0x22], ''Bob'')]"
    by code_simp+
  from pinned_message_keyword_match[of pinned_demo 40 pinned_msg ?c "''dragon egg''" "[]"] h
  have d: "dom (checkForKeywords [40] pinned_demo) = dom pinned_demo"
    and f: "find_node 40 (dom (checkForKeywords [40] pinned_demo)) = Some pinned_msg"
    and k: "keywordMatches (checkForKeywords [40] pinned_demo)
       = remember (getMessageFingerprint pinned_msg) (keywordMatches pinned_demo)"
    and n: "notifications (checkForKeywords [40] pinned_demo)
       = (if gmNotification pinned_demo
            then notifications pinned_demo
              @ [(ViaGM, keyword_alert_title ''dragon egg'', message_author pinned_msg)]
          else if permission pinned_demo = Granted
            then notifications pinned_demo
              @ [(ViaBrowser, keyword_alert_title ''dragon egg'', message_author pinned_msg)]
          else notifications pinned_demo)"
    by blast+
  from pinned_message_keyword_match[of browser_pinned 40 pinned_msg ?c "''dragon egg''" "[]"] hb
  have d': "dom (checkForKeywords [40] browser_pinned) = dom browser_pinned"
    and k': "keywordMatches (checkForKeywords [40] browser_pinned)
       = remember (getMessageFingerprint pinned_msg) (keywordMatches browser_pinned)"
    and n': "notifications (checkForKeywords [40] browser_pinned)
       = (if gmNotification browser_pinned
            then notifications browser_pinned
              @ [(ViaGM, keyword_alert_title ''dragon egg'', message_author pinned_msg)]
          else if permission browser_pinned = Granted
            then notifications browser_pinned
              @ [(ViaBrowser, keyword_alert_title ''dragon egg'', message_author pinned_msg)]
          else notifications browser_pinned)"
    by blast+
  from h have h': "features_keywords pinned_demo" "find_node 40 (dom pinned_demo) = Some pinned_msg"
    "hasClass ''chat-marked'' pinned_msg"
    by blast+
  show ?thesis
    by (intro conjI h' e d f trans[OF k v(1)] trans[OF n v(2)] b d' trans[OF k' v(3)]
          trans[OF n' v(4)])
qed

section \<open>The dispatcher\<close>

text \<open>
  C1. The handlers are not wrapped one by one. On this batch the session separator
  throws: the error is logged, but the pin manager and the keyword matcher, both
  enabled, are not run (no pin button, no keyword match recorded, no keyword
  notification), as they would be with a wrapper around each handler.
\<close>

theorem later_handlers_skipped:
  "newMessages (refresh [40]) detached_world = [40]
   \<and> features_markers detached_world \<and> features_keywords detached_world
   \<and> errorLog (handleChatMutations (refresh [40]) detached_world) = [TypeError]
   \<and> notifications (handleChatMutations (refresh [40]) detached_world)
       = [(ViaGM, ''You were mentioned!'', ''Bob: selling to player one '')]
   \<and> querySelectorAll (hasClass ''chat-marker-btn'') (dom (handleChatMutations (refresh [40]) detached_world)) = []
   \<and> keywordMatches (handleChatMutations (refresh [40]) detached_world) = []
   \<and> length (querySelectorAll (hasClass ''chat-marker-btn'') (dom (dispatch_isolated (refresh [40]) detached_world))) = 1
   \<and> keywordMatches (dispatch_isolated (refresh [40]) detached_world) = [''12:31:selling to player one'']
   \<and> length (notifications (dispatch_isolated (refresh [40]) detached_world)) = 2
   \<and> handleChatMutations (refresh [40]) detached_world \<noteq> dispatch_isolated (refresh [40]) detached_world"
  by code_simp

lemma insertSeparator_Thrown:
  "insertSeparator r w = Thrown e w' \<Longrightarrow> e = TypeError \<and> w' = w"
  by (auto simp: insertSeparator_def Let_def split: if_splits option.splits)

lemma checkForSessionChange_Thrown:
  "checkForSessionChange ms muts w = Thrown e w' \<Longrightarrow> e = TypeError \<and> w' = w"
  by (auto simp: checkForSessionChange_def dest: insertSeparator_Thrown
        split: if_splits option.splits outcome.splits)

text \<open>
  C1, as the code has it. The five handlers run in their order inside one
  \<open>try\<close> block. When none throws, the result is that of all five. When the
  session separator throws, the error is caught and logged, the state is the one the
  mention matcher and the self-highlighter left, and the pin manager and the keyword
  matcher are not run for this batch. No error leaves \<open>handleChatMutations\<close>.
\<close>

theorem single_try_block:
  "newMessages mutations w \<noteq> [] \<longrightarrow>
     (let messages = newMessages mutations w;
          w2 = highlightOwnMessages messages (checkForMentions messages w)
      in case checkForSessionChange messages mutations w2 of
           Done w3 \<Rightarrow>
             handleChatMutations mutations w = checkForKeywords messages (addMarkerButtons messages w3)
         | Thrown e w3 \<Rightarrow>
             e = TypeError \<and> w3 = w2
             \<and> handleChatMutations mutations w = w2\<lparr>errorLog := errorLog w2 @ [TypeError]\<rparr>)"
proof (intro impI)
  assume ne: "newMessages mutations w \<noteq> []"
  let ?ms = "newMessages mutations w"
  let ?w2 = "highlightOwnMessages ?ms (checkForMentions ?ms w)"
  show "let messages = newMessages mutations w;
          w2 = highlightOwnMessages messages (checkForMentions messages w)
      in case checkForSessionChange messages mutations w2 of
           Done w3 \<Rightarrow>
             handleChatMutations mutations w = checkForKeywords messages (addMarkerButtons messages w3)
         | Thrown e w3 \<Rightarrow>
             e = TypeError \<and> w3 = w2
             \<and> handleChatMutations mutations w = w2\<lparr>errorLog := errorLog w2 @ [TypeError]\<rparr>"
  proof (cases "checkForSessionChange ?ms mutations ?w2")
    case (Done w3)
    with ne show ?thesis
      by (simp add: handleChatMutations_def processFeatures_def Let_def)
  next
    case (Thrown e w3)
    from checkForSessionChange_Thrown[OF Thrown] have "e = TypeError" "w3 = ?w2" by simp_all
    with ne Thrown show ?thesis
      by (simp add: handleChatMutations_def processFeatures_def Let_def)
  qed
qed

theorem single_try_block_witness:
  "newMessages (refresh [40]) detached_world = [40]
   \<and> checkForSessionChange [40] (refresh [40])
        (highlightOwnMessages [40] (checkForMentions [40] detached_world))
       = Thrown TypeError (highlightOwnMessages [40] (checkForMentions [40] detached_world))
   \<and> handleChatMutations (refresh [40]) detached_world
       = (highlightOwnMessages [40] (checkForMentions [40] detached_world))
           \<lparr>errorLog := [TypeError]\<rparr>
   \<and> newMessages (refresh [10, 40]) demo = [10, 40]
   \<and> (case checkForSessionChange [10, 40] (refresh [10, 40])
              (highlightOwnMessages [10, 40] (checkForMentions [10, 40] demo)) of
         Done w3 \<Rightarrow> handleChatMutations (refresh [10, 40]) demo
                     = checkForKeywords [10, 40] (addMarkerButtons [10, 40] w3)
       | Thrown e w3 \<Rightarrow> False)"
proof -
  have n: "newMessages (refresh [40]) detached_world = [40]"
    "newMessages (refresh [10, 40]) demo = [10, 40]"
    by code_simp+
  have t: "checkForSessionChange [40] (refresh [40])
        (highlightOwnMessages [40] (checkForMentions [40] detached_world))
       = Thrown TypeError (highlightOwnMessages [40] (checkForMentions [40] detached_world))"
    by code_simp
  have l: "errorLog (highlightOwnMessages [40] (checkForMentions [40] detached_world)) = []"
    by code_simp
  obtain w3 where d: "checkForSessionChange [10, 40] (refresh [10, 40])
              (highlightOwnMessages [10, 40] (checkForMentions [10, 40] demo)) = Done w3"
    by (cases "checkForSessionChange [10, 40] (refresh [10, 40])
              (highlightOwnMessages [10, 40] (checkForMentions [10, 40] demo))")
       (simp_all, code_simp)
  from single_try_block[of "refresh [40]" detached_world] n t l
  have a: "handleChatMutations (refresh [40]) detached_world
       = (highlightOwnMessages [40] (checkForMentions [40] detached_world))
           \<lparr>errorLog := [TypeError]\<rparr>"
    by (simp add: Let_def)
  from single_try_block[of "refresh [10, 40]" demo] n d
  have b: "handleChatMutations (refresh [10, 40]) demo
                     = checkForKeywords [10, 40] (addMarkerButtons [10, 40] w3)"
    by (simp add: Let_def)
  show ?thesis using n t a b d by simp
qed

section \<open>Stopping the session separator\<close>

text \<open>
  For every state, \<open>stopSeparator\<close> leaves no divider in the document and keeps the
  last known fingerprint. \<open>stopMentionWatcher\<close>, by contrast, empties the set of its
  handler.
\<close>

lemma querySelectorAll_remove_all:
  "querySelectorAll (hasClass c) (remove_all (hasClass c) ns) = []"
  by (induction "hasClass c" ns rule: remove_all.induct) (auto simp: hasClass_def)

lemma stopSeparator_document:
  "querySelectorAll (hasClass ''chat-separator'') (document (stopSeparator w)) = []"
  by (simp add: stopSeparator_def document_def Let_def querySelectorAll_remove_all)

lemma stopSeparator_lastKnownMessage:
  "lastKnownMessage (stopSeparator w) = lastKnownMessage w"
  by (simp add: stopSeparator_def Let_def)

lemma stopMentionWatcher_clears: "seenMessages (stopMentionWatcher w) = []"
  by (simp add: stopMentionWatcher_def)

text \<open>
  C7. \<open>stopSeparator\<close> removes the dividers of the document and clears the flag,
  but the last known fingerprint stays: after a restart, a refresh that brings that
  message back gets a divider, which the idle state would not give.
\<close>

theorem stopSeparator_keeps_lastKnownMessage:
  "count_separators (document divided_page) = 1
   \<and> count_separators (document (stopSeparator divided_page)) = 0
   \<and> \<not> features_separator (stopSeparator divided_page)
   \<and> lastKnownMessage (stopSeparator divided_page) = Some ''12:30:hi''
   \<and> (case checkForSessionChange [10, 40] (refresh [10, 40])
              (startSeparator (stopSeparator divided_page)) of
         Done w' \<Rightarrow> count_separators (dom w') = 1
       | Thrown e w' \<Rightarrow> False)
   \<and> (case checkForSessionChange [10, 40] (refresh [10, 40])
              (startSeparator ((stopSeparator divided_page)\<lparr>lastKnownMessage := None\<rparr>)) of
         Done w' \<Rightarrow> count_separators (dom w') = 0
       | Thrown e w' \<Rightarrow> False)"
  by code_simp

section \<open>Starting features\<close>

text \<open>
  A feature that is on is not started again: starting a feature twice, with the same
  answer to a prompt, is starting it once, and \<open>startObserver\<close> is called once.
\<close>

lemma startObserver_observing: "observer w \<noteq> None \<Longrightarrow> startObserver w = w"
  by (simp add: startObserver_def)

lemma startSeparator_twice: "startSeparator (startSeparator w) = startSeparator w"
  by (simp add: startSeparator_def startObserver_def)

lemma features_markers_fold [simp]: "features_markers (fold marker_step ms w) = features_markers w"
  by (induction ms arbitrary: w) (simp_all add: marker_step_def split: option.splits)

lemma features_markers_addMarkerButtons [simp]:
  "features_markers (addMarkerButtons ms w) = features_markers w"
  by (simp add: addMarkerButtons_def)

lemma features_markers_startObserver [simp]:
  "features_markers (startObserver w) = features_markers w"
  by (simp add: startObserver_def)

lemma startMarkers_enabled: "features_markers (startMarkers w)"
  by (simp add: startMarkers_def Let_def)

lemma startMarkers_twice: "startMarkers (startMarkers w) = startMarkers w"
  using startMarkers_enabled[of w] by (simp add: startMarkers_def[of "startMarkers w"])

lemma features_mentions_startObserver [simp]:
  "features_mentions (startObserver w) = features_mentions w"
  by (simp add: startObserver_def)

lemma get_username_features [simp]:
  "get_username input w = Some w' \<Longrightarrow> features_mentions w' = features_mentions w"
  "get_username input w = Some w' \<Longrightarrow> features_highlighting w' = features_highlighting w"
  by (auto simp: get_username_def split: if_splits option.splits)

lemma startMentionWatcher_twice:
  "startMentionWatcher input (startMentionWatcher input w) = startMentionWatcher input w"
proof (cases "features_mentions w")
  case True
  then show ?thesis by (simp add: startMentionWatcher_def)
next
  case False
  show ?thesis
  proof (cases "get_username input w")
    case None
    with False show ?thesis by (simp add: startMentionWatcher_def)
  next
    case (Some w')
    with False have "startMentionWatcher input w = startObserver (w'\<lparr>features_mentions := True\<rparr>)"
      by (simp add: startMentionWatcher_def)
    moreover have "features_mentions (startObserver (w'\<lparr>features_mentions := True\<rparr>))" by simp
    ultimately show ?thesis by (simp add: startMentionWatcher_def[of input "startObserver _"])
  qed
qed

lemma features_highlighting_fold [simp]:
  "features_highlighting (fold (highlight_step u) ms w) = features_highlighting w"
  by (induction ms arbitrary: w) (simp_all add: highlight_step_def split: option.splits)

lemma features_highlighting_highlightOwnMessages [simp]:
  "features_highlighting (highlightOwnMessages ms w) = features_highlighting w"
  by (simp add: highlightOwnMessages_def split: option.splits)

lemma features_highlighting_startObserver [simp]:
  "features_highlighting (startObserver w) = features_highlighting w"
  by (simp add: startObserver_def)

lemma startHighlighter_twice:
  "startHighlighter input (startHighlighter input w) = startHighlighter input w"
proof (cases "features_highlighting w")
  case True
  then show ?thesis by (simp add: startHighlighter_def)
next
  case False
  show ?thesis
  proof (cases "get_username input w")
    case None
    with False show ?thesis by (simp add: startHighlighter_def)
  next
    case (Some w')
    with False have "features_highlighting (startHighlighter input w)"
      by (simp add: startHighlighter_def Let_def)
    then show ?thesis by (simp add: startHighlighter_def[of input "startHighlighter input w"])
  qed
qed

lemma features_keywords_startObserver [simp]:
  "features_keywords (startObserver w) = features_keywords w"
  by (simp add: startObserver_def)

lemma loadKeywords_twice [simp]: "loadKeywords (loadKeywords w) = loadKeywords w"
  by (simp add: loadKeywords_def split: option.splits)

lemma loadKeywords_features [simp]: "features_keywords (loadKeywords w) = features_keywords w"
  by (simp add: loadKeywords_def split: option.splits)

lemma startKeywordWatcher_twice:
  "startKeywordWatcher input (startKeywordWatcher input w) = startKeywordWatcher input w"
proof (cases "features_keywords (startKeywordWatcher input w)")
  case True
  then show ?thesis by (simp add: startKeywordWatcher_def[of input "startKeywordWatcher input w"])
next
  case False
  then have "startKeywordWatcher input w = loadKeywords w"
    by (auto simp: startKeywordWatcher_def Let_def split: if_splits option.splits)
  moreover from False have "features_keywords w = False"
    by (auto simp: startKeywordWatcher_def Let_def split: if_splits option.splits)
  moreover from False have "state_keywords (loadKeywords w) = [] \<and> (input = None \<or> input = Some [])"
    by (auto simp: startKeywordWatcher_def Let_def split: if_splits option.splits)
  ultimately show ?thesis
    by (auto simp: startKeywordWatcher_def Let_def)
qed

text \<open>
  C8. Two features started while the first \<open>startObserver\<close> is still waiting
  for the container: both calls find \<open>state.observer\<close> unset, and both
  continuations subscribe an observer to the container.
\<close>

theorem two_subscriptions:
  "map_option node_ref (case found_container of Inl e \<Rightarrow> None | Inr c \<Rightarrow> Some c) = Some (Some 2)
   \<and> observer (startMarkers (startSeparator fresh_page)) = None
   \<and> awaiting (startMarkers (startSeparator fresh_page)) = 2
   \<and> subscriptions (startObserver_resume found_container
         (startObserver_resume found_container (startMarkers (startSeparator fresh_page))))
       = [Some 2, Some 2]
   \<and> live_subscriptions (startObserver_resume found_container
         (startObserver_resume found_container (startMarkers (startSeparator fresh_page)))) = 2
   \<and> observer (startObserver_resume found_container
         (startObserver_resume found_container (startMarkers (startSeparator fresh_page)))) = Some 1"
  by code_simp

section \<open>The session separator\<close>

text \<open>
  After \<open>insert_first new r\<close>, the element \<open>r\<close> has the same parent, \<open>new\<close> is
  its nearest preceding sibling, and the matches of a selector on the properties of
  an element are those of before plus those of \<open>new\<close>.
\<close>

lemma locate_None: "find_node r ns = None \<Longrightarrow> locate r parent prev ns = None"
proof (induction r parent prev ns rule: locate.induct)
  case (3 r parent prev i p ks ns)
  then show ?case by (cases "i = r"; cases "find_node r ks") simp_all
qed simp_all

lemma locate_Some:
  "find_node r ns = Some n \<Longrightarrow> \<exists>q pv. locate r parent prev ns = Some (q, pv, n)"
proof (induction r parent prev ns rule: locate.induct)
  case (3 r parent prev i p ks ns)
  show ?case
  proof (cases "i = r")
    case True
    with "3.prems" have "n = Element i p ks" by simp
    with True show ?thesis by simp
  next
    case False
    show ?thesis
    proof (cases "find_node r ks")
      case None
      with 3 False show ?thesis by (simp add: locate_None)
    next
      case (Some a)
      with "3.prems" False have "a = n" by simp
      with "3.IH"(1)[OF False] Some obtain q pv where "locate r (Some i) [] ks = Some (q, pv, n)"
        by blast
      with False show ?thesis by simp
    qed
  qed
qed simp_all

lemma locate_find_node:
  "locate r parent prev ns = Some (q, pv, n) \<Longrightarrow> find_node r ns = Some n"
proof -
  assume l: "locate r parent prev ns = Some (q, pv, n)"
  show ?thesis
  proof (cases "find_node r ns")
    case None
    with l show ?thesis by (simp add: locate_None)
  next
    case (Some m)
    from locate_Some[OF Some, of parent prev] l show ?thesis using Some by auto
  qed
qed

lemma insert_first_None: "find_node r ns = None \<Longrightarrow> insert_first new r ns = None"
proof (induction r ns rule: find_node.induct)
  case (3 r i p ks ns)
  then show ?case by (cases "i = r"; cases "find_node r ks") simp_all
qed simp_all

lemma locate_insert_first:
  "locate r parent prev ns = Some (q, pv, n) \<Longrightarrow> find_node r [new] = None \<Longrightarrow>
   \<exists>ns'. insert_first new r ns = Some ns' \<and> locate r parent prev ns' = Some (q, new # pv, n)"
proof (induction r parent prev ns rule: locate.induct)
  case (1 r parent prev)
  then show ?case by simp
next
  case (2 r parent prev s ns)
  then show ?case by auto
next
  case (3 r parent prev i p ks ns)
  show ?case
  proof (cases "i = r")
    case True
    with "3.prems"(1) have e: "q = parent" "pv = prev" "n = Element i p ks" by simp_all
    from "3.prems"(2) have "locate r parent prev (new # Element r p ks # ns)
        = Some (parent, new # prev, Element r p ks)"
      by (cases new) (auto simp: locate_None split: if_splits option.splits)
    with True e show ?thesis by simp
  next
    case False
    show ?thesis
    proof (cases "locate r (Some i) [] ks")
      case None
      with "3.prems"(1) False
      have l: "locate r parent (Element i p ks # prev) ns = Some (q, pv, n)" by simp
      from "3.IH"(2)[OF False None l "3.prems"(2)] obtain ms where
        ms: "insert_first new r ns = Some ms"
        "locate r parent (Element i p ks # prev) ms = Some (q, new # pv, n)" by blast
      have "find_node r ks = None"
      proof (cases "find_node r ks")
        case (Some a)
        from locate_Some[OF Some, of "Some i" "[]"] None show ?thesis by simp
      qed simp
      then have "insert_first new r ks = None" by (rule insert_first_None)
      with False ms None show ?thesis by simp
    next
      case (Some found)
      with "3.prems"(1) False have f: "locate r (Some i) [] ks = Some (q, pv, n)" by simp
      from "3.IH"(1)[OF False f "3.prems"(2)] obtain ks' where
        "insert_first new r ks = Some ks'" "locate r (Some i) [] ks' = Some (q, new # pv, n)"
        by blast
      with False show ?thesis by simp
    qed
  qed
qed

lemma querySelectorAll_append:
  "querySelectorAll sel (xs @ ys) = querySelectorAll sel xs @ querySelectorAll sel ys"
  by (induction sel xs rule: querySelectorAll.induct) auto

lemma count_insert_first:
  "insert_first new r ns = Some ns' \<Longrightarrow> (\<And>i p ks ks'. sel (Element i p ks) = sel (Element i p ks')) \<Longrightarrow>
   length (querySelectorAll sel ns')
     = length (querySelectorAll sel ns) + length (querySelectorAll sel [new])"
proof (induction new r ns arbitrary: ns' rule: insert_first.induct)
  case (1 new r)
  then show ?case by simp
next
  case (2 new r s ns)
  then show ?case by auto
next
  case (3 new r i p ks ns)
  show ?case
  proof (cases "i = r")
    case True
    with "3.prems"(1) have "ns' = [new] @ (Element i p ks # ns)" by simp
    then show ?thesis by (simp only: querySelectorAll_append length_append)
  next
    case False
    show ?thesis
    proof (cases "insert_first new r ks")
      case None
      with "3.prems"(1) False obtain ms where ms: "insert_first new r ns = Some ms"
        "ns' = Element i p ks # ms" by auto
      from "3.IH"(2)[OF False None ms(1) "3.prems"(2)] ms(2) show ?thesis by simp
    next
      case (Some ks')
      with "3.prems"(1) False have ns': "ns' = Element i p ks' # ns" by simp
      from "3.IH"(1)[OF False Some "3.prems"(2)]
      have "length (querySelectorAll sel ks')
          = length (querySelectorAll sel ks) + length (querySelectorAll sel [new])" .
      moreover have "sel (Element i p ks') = sel (Element i p ks)" by (rule "3.prems"(2))
      ultimately show ?thesis using ns' by simp
    qed
  qed
qed

lemma trim_not_empty: "c \<in> set s \<Longrightarrow> \<not> is_ws c \<Longrightarrow> trim s \<noteq> []"
proof -
  assume c: "c \<in> set s" "\<not> is_ws c"
  then have ne: "dropWhile is_ws s \<noteq> []" by (auto simp: dropWhile_eq_Nil_conv)
  then have "\<not> is_ws (hd (dropWhile is_ws s))" by (rule hd_dropWhile)
  moreover from ne have "hd (dropWhile is_ws s) \<in> set (rev (dropWhile is_ws s))" by simp
  ultimately have "dropWhile is_ws (rev (dropWhile is_ws s)) \<noteq> []"
    by (auto simp: dropWhile_eq_Nil_conv)
  then show ?thesis by (simp add: trim_def)
qed

lemma fingerprint_not_empty: "getMessageFingerprint m \<noteq> []"
  unfolding getMessageFingerprint_def
  by (rule trim_not_empty[where c = "CHR '':''"]) (simp_all add: is_ws_def)

lemma insertSeparator_present: "divider_before r (dom w) \<Longrightarrow> insertSeparator r w = Done w"
  by (simp add: insertSeparator_def)

lemma insertSeparator_inserts:
  "\<not> divider_before r (dom w) \<Longrightarrow> parentElement r (dom w) = Some q \<Longrightarrow>
   insertSeparator r w = Done (w\<lparr>dom := insertBefore (createSeparator (new_ref (dom w))) r (dom w)\<rparr>)"
  by (simp add: insertSeparator_def Let_def)

lemma count_createSeparator:
  "length (querySelectorAll (hasClass ''chat-separator'') [createSeparator i]) = 1"
  by (simp add: createSeparator_def hasClass_def)

lemma after_insertBefore:
  assumes "parentElement r ns = Some q"
  shows "previousElementSibling r (insertBefore (createSeparator (new_ref ns)) r ns)
           = Some (createSeparator (new_ref ns))
       \<and> find_node r (insertBefore (createSeparator (new_ref ns)) r ns) = find_node r ns
       \<and> count_separators (insertBefore (createSeparator (new_ref ns)) r ns)
           = Suc (count_separators ns)"
proof -
  let ?sep = "createSeparator (new_ref ns)"
  from assms obtain pv n where l: "locate r None [] ns = Some (Some q, pv, n)"
    by (auto simp: parentElement_def split: option.splits)
  then have f: "find_node r ns = Some n" by (rule locate_find_node)
  then have fresh: "find_node r [?sep] = None"
    by (intro find_node_createSeparator find_node_not_new)
  from locate_insert_first[OF l fresh] obtain ns' where
    i: "insert_first ?sep r ns = Some ns'" and l': "locate r None [] ns' = Some (Some q, ?sep # pv, n)"
    by blast
  from i have ib: "insertBefore ?sep r ns = ns'" by (simp add: insertBefore_def)
  have "is_element ?sep" by (simp add: createSeparator_def)
  with l' have p: "previousElementSibling r ns' = Some ?sep"
    by (simp add: previousElementSibling_def)
  have c: "count_separators ns' = Suc (count_separators ns)"
    unfolding count_separators_def
    using count_insert_first[OF i, of "hasClass ''chat-separator''"] count_createSeparator
    by (simp add: hasClass_def)
  from p c ib find_node_insertBefore[OF fresh, of ns] show ?thesis by simp
qed

lemma divider_before_createSeparator:
  "previousElementSibling r ns = Some (createSeparator i) \<Longrightarrow> divider_before r ns"
  by (simp add: divider_before_def createSeparator_def hasClass_def)

lemma checkForSessionChange_match:
  assumes "session_match messages mutations w F target"
  shows "checkForSessionChange messages mutations w =
     (case insertSeparator target w of
        Thrown e w' \<Rightarrow> Thrown e w'
      | Done w' \<Rightarrow> Done (update_lastKnownMessage messages w'))"
proof -
  from assms have fd: "List.find (\<lambda>msg. fingerprint_at (dom w) msg = Some F) messages = Some target"
    by (simp add: session_match_def)
  then have "fingerprint_at (dom w) target = Some F" by (auto simp: find_Some_iff)
  then have "F \<noteq> []" by (auto simp: fingerprint_at_def fingerprint_not_empty)
  with assms fd show ?thesis
    by (simp add: checkForSessionChange_def session_match_def)
qed

lemma update_lastKnownMessage_dom [simp]: "dom (update_lastKnownMessage ms w) = dom w"
  by (simp add: update_lastKnownMessage_def split: list.splits option.splits)

lemma update_lastKnownMessage_features [simp]:
  "features_separator (update_lastKnownMessage ms w) = features_separator w"
  by (simp add: update_lastKnownMessage_def split: list.splits option.splits)

text \<open>
  C6, as the code has it. Let \<open>F\<close> be the last known fingerprint and \<open>target\<close>
  the first message with that fingerprint in a batch that carries a removal. If a
  divider immediately precedes \<open>target\<close>, none is inserted. Otherwise, if
  \<open>target\<close> has a parent element, exactly one divider is inserted, immediately
  before \<open>target\<close>; and if \<open>target\<close> is the first message of the batch, \<open>F\<close>
  stays the last known fingerprint and a repeat of the same batch changes nothing.
\<close>

theorem session_divider:
  "session_match messages mutations w F target \<longrightarrow>
     (divider_before target (dom w) \<longrightarrow>
        checkForSessionChange messages mutations w = Done (update_lastKnownMessage messages w))
   \<and> (\<not> divider_before target (dom w) \<and> parentElement target (dom w) \<noteq> None \<longrightarrow>
        (let separator = createSeparator (new_ref (dom w));
             w' = update_lastKnownMessage messages
                    (w\<lparr>dom := insertBefore separator target (dom w)\<rparr>)
         in checkForSessionChange messages mutations w = Done w'
            \<and> previousElementSibling target (dom w') = Some separator
            \<and> divider_before target (dom w')
            \<and> count_separators (dom w') = Suc (count_separators (dom w))
            \<and> (target = hd messages \<longrightarrow>
                 lastKnownMessage w' = Some F
                 \<and> checkForSessionChange messages mutations w' = Done w')))"
proof (intro impI conjI)
  assume sm: "session_match messages mutations w F target"
  assume "divider_before target (dom w)"
  then show "checkForSessionChange messages mutations w = Done (update_lastKnownMessage messages w)"
    by (simp add: checkForSessionChange_match[OF sm] insertSeparator_present)
next
  assume sm: "session_match messages mutations w F target"
  assume h: "\<not> divider_before target (dom w) \<and> parentElement target (dom w) \<noteq> None"
  then obtain q where nd: "\<not> divider_before target (dom w)"
    and pq: "parentElement target (dom w) = Some q" by auto
  let ?sep = "createSeparator (new_ref (dom w))"
  let ?w1 = "w\<lparr>dom := insertBefore ?sep target (dom w)\<rparr>"
  let ?w' = "update_lastKnownMessage messages ?w1"
  from sm have fs: "features_separator w" and cl: "chatWasCleared mutations"
    and fd: "List.find (\<lambda>msg. fingerprint_at (dom w) msg = Some F) messages = Some target"
    by (simp_all add: session_match_def)
  from fd have ft: "fingerprint_at (dom w) target = Some F" by (auto simp: find_Some_iff)
  have run: "checkForSessionChange messages mutations w = Done ?w'"
    by (simp add: checkForSessionChange_match[OF sm] insertSeparator_inserts[OF nd pq])
  from after_insertBefore[OF pq]
  have prev: "previousElementSibling target (dom ?w') = Some ?sep"
    and same: "find_node target (dom ?w') = find_node target (dom w)"
    and cnt: "count_separators (dom ?w') = Suc (count_separators (dom w))"
    by simp_all
  from prev have div: "divider_before target (dom ?w')"
    by (rule divider_before_createSeparator)
  have rep: "lastKnownMessage ?w' = Some F \<and> checkForSessionChange messages mutations ?w' = Done ?w'"
    if first: "target = hd messages"
  proof -
    from fd have "messages \<noteq> []" by auto
    with first obtain rest where ms: "messages = target # rest" by (cases messages) auto
    from same ft have ft1: "fingerprint_at (dom ?w1) target = Some F"
      by (simp add: fingerprint_at_def)
    with ms have w': "?w' = ?w1\<lparr>lastKnownMessage := Some F\<rparr>"
      by (simp add: update_lastKnownMessage_def)
    then have lk: "lastKnownMessage ?w' = Some F" by simp
    from ft1 have ft': "fingerprint_at (dom ?w') target = Some F" by simp
    with ms fs cl lk have sm': "session_match messages mutations ?w' F target"
      by (simp add: session_match_def)
    from ms ft' lk have "update_lastKnownMessage messages ?w' = ?w'"
      by (simp add: update_lastKnownMessage_def)
    with checkForSessionChange_match[OF sm'] insertSeparator_present[OF div]
    have "checkForSessionChange messages mutations ?w' = Done ?w'" by simp
    with lk show ?thesis by simp
  qed
  from run prev div cnt rep
  show "let separator = createSeparator (new_ref (dom w));
             w' = update_lastKnownMessage messages
                    (w\<lparr>dom := insertBefore separator target (dom w)\<rparr>)
         in checkForSessionChange messages mutations w = Done w'
            \<and> previousElementSibling target (dom w') = Some separator
            \<and> divider_before target (dom w')
            \<and> count_separators (dom w') = Suc (count_separators (dom w))
            \<and> (target = hd messages \<longrightarrow>
                 lastKnownMessage w' = Some F
                 \<and> checkForSessionChange messages mutations w' = Done w')"
    by (simp add: Let_def)
qed

text \<open>
  C6. A repeat of the same batch can insert a second divider. Here the message with
  the last known fingerprint is the second of the batch: the first event puts a
  divider before it and records the fingerprint of the first message of the batch; the
  repeat then finds that first message and puts a second divider before it.
\<close>

theorem repeat_inserts_second_divider:
  "features_separator second_page
   \<and> lastKnownMessage second_page = Some ''12:31:selling to player one''
   \<and> fingerprint_at (dom second_page) 40 = Some ''12:31:selling to player one''
   \<and> newMessages (refresh [10, 40]) second_page = [10, 40]
   \<and> count_separators (dom second_page) = 0
   \<and> count_separators (dom (handleChatMutations (refresh [10, 40]) second_page)) = 1
   \<and> divider_before 40 (dom (handleChatMutations (refresh [10, 40]) second_page))
   \<and> newMessages (refresh [10, 40]) (handleChatMutations (refresh [10, 40]) second_page) = [10, 40]
   \<and> count_separators (dom (handleChatMutations (refresh [10, 40])
         (handleChatMutations (refresh [10, 40]) second_page))) = 2
   \<and> divider_before 10 (dom (handleChatMutations (refresh [10, 40])
         (handleChatMutations (refresh [10, 40]) second_page)))"
  by code_simp

theorem session_divider_witness:
  "session_match [40, 10] (refresh [40, 10]) returning_page ''12:31:selling to player one'' 40
   \<and> \<not> divider_before 40 (dom returning_page)
   \<and> parentElement 40 (dom returning_page) = Some 2
   \<and> count_separators (dom returning_page) = 0
   \<and> (case checkForSessionChange [40, 10] (refresh [40, 10]) returning_page of
         Done w' \<Rightarrow>
           count_separators (dom w') = 1 \<and> divider_before 40 (dom w')
           \<and> session_match [40, 10] (refresh [40, 10]) w' ''12:31:selling to player one'' 40
           \<and> checkForSessionChange [40, 10] (refresh [40, 10]) w' = Done w'
       | Thrown e w' \<Rightarrow> False)"
proof -
  let ?F = "''12:31:selling to player one''"
  let ?w' = "update_lastKnownMessage [40, 10]
      (returning_page\<lparr>dom := insertBefore (createSeparator (new_ref (dom returning_page))) 40
          (dom returning_page)\<rparr>)"
  have sm: "session_match [40, 10] (refresh [40, 10]) returning_page ?F 40"
    by code_simp
  have nd: "\<not> divider_before 40 (dom returning_page)" by code_simp
  have pe: "parentElement 40 (dom returning_page) = Some 2" by code_simp
  have c0: "count_separators (dom returning_page) = 0" by code_simp
  have hd: "(40::nat) = hd [40, 10]" by simp
  from session_divider[of "[40, 10]" "refresh [40, 10]" returning_page ?F 40] sm nd pe
  have r: "checkForSessionChange [40, 10] (refresh [40, 10]) returning_page = Done ?w'"
    and d: "divider_before 40 (dom ?w')"
    and c: "count_separators (dom ?w') = Suc (count_separators (dom returning_page))"
    and l: "lastKnownMessage ?w' = Some ?F"
    and again: "checkForSessionChange [40, 10] (refresh [40, 10]) ?w' = Done ?w'"
    by (simp_all add: Let_def)
  have sm': "session_match [40, 10] (refresh [40, 10]) ?w' ?F 40"
    by code_simp
  from session_divider[of "[40, 10]" "refresh [40, 10]" ?w' ?F 40] sm' d
  have "checkForSessionChange [40, 10] (refresh [40, 10]) ?w' = Done (update_lastKnownMessage [40, 10] ?w')"
    by blast
  with sm nd pe c0 r d c again sm' show ?thesis by simp
qed

section \<open>Malformed messages\<close>






lemma hasClass_on_props_style [simp]:
  "hasClass c (on_props (style_set k v) n) = hasClass c n"
  by (cases n) (simp_all add: hasClass_def style_set_def)










end
